theory Spec2Isabelle
  imports Complex_Main "HOL-Library.Word"
begin

section \<open>Numbers and points\<close>

text \<open>
  The program computes with \<^verbatim>\<open>float\<close> and \<^verbatim>\<open>double\<close>. They are modelled as
  \<^typ>\<open>real\<close>: arithmetic is exact, and rounding, NaN and infinities are outside the model.
  \<^verbatim>\<open>int\<close> values are modelled as \<^typ>\<open>int\<close> without wrap-around (image dimensions
  and window sizes stay far below \<open>2^31\<close>).
\<close>

text \<open>\<^verbatim>\<open>cv::Point2f\<close>; the default constructor gives \<open>(0, 0)\<close>.\<close>

datatype Point2f = Point2f (px: real) (py: real)

definition Point2f_zero :: Point2f where
  "Point2f_zero = Point2f 0 0"

definition pt_sub :: "Point2f \<Rightarrow> Point2f \<Rightarrow> Point2f" where
  "pt_sub p q = Point2f (px p - px q) (py p - py q)"

definition pt_add :: "Point2f \<Rightarrow> Point2f \<Rightarrow> Point2f" where
  "pt_add p q = Point2f (px p + px q) (py p + py q)"

definition pt_scale :: "real \<Rightarrow> Point2f \<Rightarrow> Point2f" where
  "pt_scale k p = Point2f (k * px p) (k * py p)"

text \<open>\<^verbatim>\<open>cv::norm\<close> of a point: its Euclidean length.\<close>

definition pt_norm :: "Point2f \<Rightarrow> real" where
  "pt_norm p = sqrt ((px p)\<^sup>2 + (py p)\<^sup>2)"

section \<open>QualityAssessor: the stability history\<close>

text \<open>
  \<^verbatim>\<open>std::deque<std::vector<cv::Point2f>> corner_history_\<close>: the front of the deque is
  the head of the list, \<^verbatim>\<open>push_back\<close> appends, \<^verbatim>\<open>pop_front\<close> drops the head.
\<close>

record QualityAssessor =
  corner_history :: "Point2f list list"

definition MAX_HISTORY :: nat where
  "MAX_HISTORY = 5"

definition QualityAssessor_new :: QualityAssessor where
  "QualityAssessor_new = \<lparr> corner_history = [] \<rparr>"

definition QualityAssessor_reset :: "QualityAssessor \<Rightarrow> QualityAssessor" where
  "QualityAssessor_reset a = a\<lparr> corner_history := [] \<rparr>"

text \<open>The inner loop \<^verbatim>\<open>for (int i = 0; i < 4; i++) totalDisplacement += cv::norm(corners[i] - prevCorners[i])\<close>.\<close>

fun add_displacements :: "nat \<Rightarrow> Point2f list \<Rightarrow> Point2f list \<Rightarrow> real \<Rightarrow> real" where
  "add_displacements 0 corners prevCorners acc = acc"
| "add_displacements (Suc n) corners prevCorners acc =
     add_displacements n corners prevCorners acc
       + pt_norm (pt_sub (corners ! n) (prevCorners ! n))"

text \<open>The loop over the history; the state is \<open>(totalDisplacement, comparisons)\<close>.\<close>

fun scan_history :: "Point2f list \<Rightarrow> Point2f list list \<Rightarrow> real \<times> int \<Rightarrow> real \<times> int" where
  "scan_history corners [] acc = acc"
| "scan_history corners (prevCorners # rest) (totalDisplacement, comparisons) =
     (if length prevCorners \<noteq> 4 then scan_history corners rest (totalDisplacement, comparisons)
      else scan_history corners rest
             (add_displacements 4 corners prevCorners totalDisplacement, comparisons + 4))"

definition checkStability :: "Point2f list \<Rightarrow> QualityAssessor \<Rightarrow> real \<times> QualityAssessor" where
  "checkStability corners a =
     (if length corners \<noteq> 4 then (0, a)
      else if length (corner_history a) < 3 then
        (0, a\<lparr> corner_history := corner_history a @ [corners] \<rparr>)
      else
        (let (totalDisplacement, comparisons) = scan_history corners (corner_history a) (0, 0);
             avgDisplacement =
               (if comparisons > 0 then totalDisplacement / real_of_int comparisons else 0);
             pushed = corner_history a @ [corners];
             history = (if length pushed > MAX_HISTORY then tl pushed else pushed)
         in (max 0 (1 - avgDisplacement / 20), a\<lparr> corner_history := history \<rparr>)))"

text \<open>A sequence of calls on one assessor.\<close>

datatype assessor_call = CheckStability "Point2f list" | Reset

fun assessor_step :: "QualityAssessor \<Rightarrow> assessor_call \<Rightarrow> QualityAssessor" where
  "assessor_step a (CheckStability corners) = snd (checkStability corners a)"
| "assessor_step a Reset = QualityAssessor_reset a"

definition assessor_run :: "assessor_call list \<Rightarrow> QualityAssessor \<Rightarrow> QualityAssessor" where
  "assessor_run calls a = foldl assessor_step a calls"

text \<open>The scores returned by consecutive \<^verbatim>\<open>checkStability\<close> calls.\<close>

fun stability_scores :: "Point2f list list \<Rightarrow> QualityAssessor \<Rightarrow> real list" where
  "stability_scores [] a = []"
| "stability_scores (corners # rest) a =
     fst (checkStability corners a) # stability_scores rest (snd (checkStability corners a))"

text \<open>
  The mean per-corner displacement of the current corners against the retained corner
  sets, as the specification words it.
\<close>

definition corner_distance :: "Point2f \<Rightarrow> Point2f \<Rightarrow> real" where
  "corner_distance p q = sqrt ((px p - px q)\<^sup>2 + (py p - py q)\<^sup>2)"

definition avgDisplacement_spec :: "Point2f list \<Rightarrow> Point2f list list \<Rightarrow> real" where
  "avgDisplacement_spec corners history =
     (\<Sum>prev\<leftarrow>history. \<Sum>i\<leftarrow>[0..<4]. corner_distance (corners ! i) (prev ! i))
       / real (4 * length history)"

text \<open>The corner sets retained before call number \<open>n\<close> (counted from 0): the last five of the earlier inputs.\<close>

definition retained :: "nat \<Rightarrow> 'a list \<Rightarrow> 'a list" where
  "retained n cs = drop (n - MAX_HISTORY) (take n cs)"

text \<open>A unit square with its top-left corner at \<open>(t, 0)\<close>, used as a concrete corner set.\<close>

definition sample_quad :: "real \<Rightarrow> Point2f list" where
  "sample_quad t = [Point2f t 0, Point2f (t + 1) 0, Point2f (t + 1) 1, Point2f t 1]"

section \<open>Corner ordering\<close>

text \<open>
  Both \<^verbatim>\<open>orderCorners\<close> routines start with the same centre
  (\<^verbatim>\<open>center += pt\<close> for every point, then \<^verbatim>\<open>center *= 0.25f\<close>) and the same chain of
  comparisons; the slot numbers are 0 = top-left, 1 = top-right, 2 = bottom-right,
  3 = bottom-left.
\<close>

definition corners_center :: "Point2f list \<Rightarrow> Point2f" where
  "corners_center corners = pt_scale (1 / 4) (foldl pt_add (Point2f 0 0) corners)"

definition quadrant :: "Point2f \<Rightarrow> Point2f \<Rightarrow> nat" where
  "quadrant center pt =
     (if px pt < px center \<and> py pt < py center then 0
      else if px pt \<ge> px center \<and> py pt < py center then 1
      else if px pt \<ge> px center \<and> py pt \<ge> py center then 2
      else 3)"

text \<open>
  \<^verbatim>\<open>DocumentDetector::orderCorners\<close>: every point is written into its slot, a later point
  overwriting an earlier one; the slots start as \<^verbatim>\<open>std::vector<cv::Point2f> ordered(4)\<close>,
  four default points.
\<close>

definition DocumentDetector_orderCorners :: "Point2f list \<Rightarrow> Point2f list" where
  "DocumentDetector_orderCorners corners =
     (if length corners \<noteq> 4 then corners
      else let center = corners_center corners
           in foldl (\<lambda>ordered pt. ordered[quadrant center pt := pt])
                (replicate 4 Point2f_zero) corners)"

text \<open>
  \<^verbatim>\<open>PerspectiveCorrector::orderCorners\<close>: a slot is written only while it is unassigned,
  and the input is returned when a slot stays unassigned.
\<close>

definition assign_corner ::
  "Point2f \<Rightarrow> Point2f list \<times> bool list \<Rightarrow> Point2f \<Rightarrow> Point2f list \<times> bool list" where
  "assign_corner center st pt =
     (let idx = quadrant center pt
      in if \<not> snd st ! idx then ((fst st)[idx := pt], (snd st)[idx := True]) else st)"

definition PerspectiveCorrector_orderCorners :: "Point2f list \<Rightarrow> Point2f list" where
  "PerspectiveCorrector_orderCorners corners =
     (if length corners \<noteq> 4 then corners
      else let center = corners_center corners;
               (ordered, assigned) =
                  foldl (assign_corner center)
                    (replicate 4 Point2f_zero, replicate 4 False) corners;
               allAssigned = foldl (\<lambda>ok a. if \<not> a then False else ok) True assigned
           in if \<not> allAssigned then corners else ordered)"

text \<open>A square turned by 45 degrees, listed clockwise from its top corner.\<close>

definition diamond :: "Point2f list" where
  "diamond = [Point2f 5 0, Point2f 10 5, Point2f 5 10, Point2f 0 5]"

section \<open>Detection confidence\<close>

text \<open>
  \<^verbatim>\<open>cv::contourArea\<close> of OpenCV (not oriented): half the absolute value of the sum of
  \<open>prev.x * p.y - prev.y * p.x\<close> over the polygon's edges, \<open>prev\<close> starting at the last point.
\<close>

definition contourArea :: "Point2f list \<Rightarrow> real" where
  "contourArea contour =
     (if contour = [] then 0
      else \<bar>(\<Sum>(prev, p)\<leftarrow>zip (last contour # butlast contour) contour.
               px prev * py p - py prev * px p) * (1 / 2)\<bar>)"

text \<open>\<^verbatim>\<open>std::numeric_limits<float>::max()\<close>.\<close>

definition FLT_MAX :: real where
  "FLT_MAX = 2 ^ 128 - 2 ^ 104"

text \<open>The index pairs visited by \<^verbatim>\<open>for i < 4, for j = i + 1 .. 3\<close>, in order.\<close>

definition corner_pairs :: "(nat \<times> nat) list" where
  "corner_pairs = concat (map (\<lambda>i. map (\<lambda>j. (i, j)) [i + 1..<4]) [0..<4])"

definition calculateConfidence :: "Point2f list \<Rightarrow> int \<Rightarrow> int \<Rightarrow> real" where
  "calculateConfidence corners width height =
     (if length corners \<noteq> 4 then 0
      else let area = contourArea corners;
               imageArea = real_of_int (width * height);
               areaRatio = area / imageArea;
               areaScore =
                 (if areaRatio \<ge> 2 / 10 \<and> areaRatio \<le> 8 / 10 then 1 - \<bar>areaRatio - 5 / 10\<bar>
                  else if areaRatio > 1 / 10 then 5 / 10
                  else 0);
               minDist =
                 foldl (\<lambda>m (i, j). min m (pt_norm (pt_sub (corners ! i) (corners ! j))))
                   FLT_MAX corner_pairs;
               minExpectedDist = sqrt imageArea * (1 / 10);
               distScore = min 1 (minDist / minExpectedDist)
           in areaScore * (6 / 10) + distScore * (4 / 10))"

text \<open>The confidence formula in the specification's words.\<close>

definition area_fit_score_spec :: "real \<Rightarrow> real" where
  "area_fit_score_spec ratio =
     (if 2 / 10 \<le> ratio \<and> ratio \<le> 8 / 10 then 1 - \<bar>ratio - 5 / 10\<bar>
      else if 1 / 10 < ratio \<and> ratio < 2 / 10 then 5 / 10
      else 0)"

definition min_corner_distance :: "Point2f list \<Rightarrow> real" where
  "min_corner_distance corners =
     Min (set (map (\<lambda>(i, j). corner_distance (corners ! i) (corners ! j))
                 [(0, 1), (0, 2), (0, 3), (1, 2), (1, 3), (2, 3)]))"

definition corner_separation_score :: "Point2f list \<Rightarrow> int \<Rightarrow> int \<Rightarrow> real" where
  "corner_separation_score corners width height =
     min 1 (min_corner_distance corners / ((1 / 10) * sqrt (real_of_int (width * height))))"

definition confidence_spec :: "Point2f list \<Rightarrow> int \<Rightarrow> int \<Rightarrow> real" where
  "confidence_spec corners width height =
     (6 / 10) * area_fit_score_spec (contourArea corners / real_of_int (width * height))
       + (4 / 10) * corner_separation_score corners width height"

text \<open>The area-fit score the code computes: the second test also catches ratios above 0.8.\<close>

definition area_fit_score_code :: "real \<Rightarrow> real" where
  "area_fit_score_code ratio =
     (if 2 / 10 \<le> ratio \<and> ratio \<le> 8 / 10 then 1 - \<bar>ratio - 5 / 10\<bar>
      else if (1 / 10 < ratio \<and> ratio < 2 / 10) \<or> 8 / 10 < ratio then 5 / 10
      else 0)"

text \<open>A square covering 81 percent of a 10 by 10 frame.\<close>

definition large_quad :: "Point2f list" where
  "large_quad = [Point2f 0 0, Point2f 9 0, Point2f 9 9, Point2f 0 9]"

section \<open>Images and the measurements taken from them\<close>

text \<open>
  A \<^verbatim>\<open>cv::Mat\<close> is modelled by its shape; its pixels enter the model only through the
  values the OpenCV primitives compute from them (see \<open>Measurements\<close> below) and, for the
  Sauvola binarizer, through an explicit pixel function. A default \<^verbatim>\<open>cv::Mat\<close> is empty.
  Struct fields keep their names, with a prefix where two structs share a name.
\<close>

record Mat =
  mat_rows :: int
  mat_cols :: int
  mat_channels :: int

definition Mat_new :: Mat where
  "Mat_new = \<lparr> mat_rows = 0, mat_cols = 0, mat_channels = 1 \<rparr>"

text \<open>\<^verbatim>\<open>cv::Mat::empty\<close>: no elements.\<close>

definition mat_empty :: "Mat \<Rightarrow> bool" where
  "mat_empty m \<longleftrightarrow> mat_rows m = 0 \<or> mat_cols m = 0"

record Rect =
  rect_x :: int
  rect_y :: int
  rect_width :: int
  rect_height :: int

text \<open>\<^verbatim>\<open>CaptureEngine::bufferToMat\<close>: format 0 is BGRA, every other format ends as three channels.\<close>

definition bufferToMat :: "int \<Rightarrow> int \<Rightarrow> int \<Rightarrow> Mat" where
  "bufferToMat width height format =
     \<lparr> mat_rows = height, mat_cols = width, mat_channels = (if format = 0 then 4 else 3) \<rparr>"

text \<open>\<^verbatim>\<open>cv::rotate\<close> by the requested angle; other angles leave the frame as it is.\<close>

definition rotate_frame :: "int \<Rightarrow> Mat \<Rightarrow> Mat" where
  "rotate_frame rotation frame =
     (if rotation = 90 then frame\<lparr> mat_rows := mat_cols frame, mat_cols := mat_rows frame \<rparr>
      else if rotation = 180 then frame
      else if rotation = 270 then frame\<lparr> mat_rows := mat_cols frame, mat_cols := mat_rows frame \<rparr>
      else frame)"

text \<open>The crop of \<^verbatim>\<open>analyzeFrame\<close>, applied after the rotation.\<close>

definition crop_frame :: "int \<Rightarrow> int \<Rightarrow> int \<Rightarrow> int \<Rightarrow> Mat \<Rightarrow> Mat" where
  "crop_frame crop_x crop_y crop_w crop_h frame =
     (if crop_w > 0 \<and> crop_h > 0 then
        (let x = max 0 crop_x;
             y = max 0 crop_y;
             w = min crop_w (mat_cols frame - x);
             h = min crop_h (mat_rows frame - y)
         in if w > 0 \<and> h > 0 then frame\<lparr> mat_rows := h, mat_cols := w \<rparr> else frame)
      else frame)"

record DetectionResult =
  det_found :: bool
  det_corners :: "Point2f list"
  det_confidence :: real

definition DetectionResult_new :: DetectionResult where
  "DetectionResult_new = \<lparr> det_found = False, det_corners = [], det_confidence = 0 \<rparr>"

record TextRegion =
  region_found :: bool
  region_bounds :: Rect
  region_corners :: "Point2f list"
  region_confidence :: real
  region_area :: real

record TextRegionsResult =
  trs_found :: bool
  trs_regions :: "TextRegion list"
  trs_overallBounds :: Rect
  trs_overallCorners :: "Point2f list"
  trs_regionCount :: int
  trs_totalArea :: real
  trs_coverageRatio :: real

text \<open>
  What the OpenCV-based routines report for the frame under analysis (after rotation and
  crop): \<open>m_quad\<close> is the result of \<^verbatim>\<open>findLargestQuadrilateral\<close> scaled back to the frame
  (four points, or none), \<open>m_blur\<close> and \<open>m_brightness\<close> are \<^verbatim>\<open>detectBlur\<close> and
  \<^verbatim>\<open>checkBrightness\<close> of the grey frame, \<open>m_textRegions\<close> is \<^verbatim>\<open>detectTextRegions\<close>, and
  \<open>m_regionBlur\<close>, \<open>m_regionBrightness\<close> are the two scores inside the overall text bounds.
\<close>

record Measurements =
  m_quad :: "Point2f list"
  m_blur :: real
  m_brightness :: real
  m_textRegions :: TextRegionsResult
  m_regionBlur :: real
  m_regionBrightness :: real

text \<open>\<^verbatim>\<open>DocumentDetector::detect\<close>, from the quadrilateral search onwards.\<close>

definition DocumentDetector_detect :: "Mat \<Rightarrow> Point2f list \<Rightarrow> DetectionResult" where
  "DocumentDetector_detect frame quad =
     (if mat_empty frame then DetectionResult_new
      else if length quad = 4 then
        (let ordered = DocumentDetector_orderCorners quad
         in \<lparr> det_found = True, det_corners = ordered,
              det_confidence = calculateConfidence ordered (mat_cols frame) (mat_rows frame) \<rparr>)
      else DetectionResult_new)"

section \<open>QualityAssessor: scores\<close>

record QualityScore =
  q_blur_score :: real
  q_brightness_score :: real
  q_stability_score :: real
  q_corner_confidence :: real

definition QualityScore_new :: QualityScore where
  "QualityScore_new = \<lparr> q_blur_score = 0, q_brightness_score = 0, q_stability_score = 0,
                          q_corner_confidence = 0 \<rparr>"

definition overall :: "QualityScore \<Rightarrow> real" where
  "overall q = q_blur_score q * (3 / 10) + q_brightness_score q * (2 / 10)
                + q_stability_score q * (3 / 10) + q_corner_confidence q * (2 / 10)"

text \<open>\<^verbatim>\<open>QualityAssessor::assess\<close>; \<open>blur\<close> and \<open>brightness\<close> are the two scores of the grey frame.\<close>

definition assess ::
  "Mat \<Rightarrow> real \<Rightarrow> real \<Rightarrow> Point2f list \<Rightarrow> real \<Rightarrow> QualityAssessor \<Rightarrow> QualityScore \<times> QualityAssessor" where
  "assess frame blur brightness quad cornerConfidence a =
     (let score = QualityScore_new\<lparr> q_corner_confidence := cornerConfidence \<rparr>
      in if mat_empty frame then (score, a)
         else let score = score\<lparr> q_blur_score := blur, q_brightness_score := brightness \<rparr>
              in if quad \<noteq> [] \<and> length quad = 4 then
                   (let (stability, a') = checkStability quad a
                    in (score\<lparr> q_stability_score := stability \<rparr>, a'))
                 else (score, a))"

section \<open>CaptureEngine: frame analysis\<close>

record FrameAnalysisResult =
  document_found :: bool
  table_found :: bool
  text_region_found :: bool
  result_corners :: "real list"
  corner_confidence :: real
  blur_score :: real
  brightness_score :: real
  stability_score :: real
  overall_score :: real
  capture_ready :: bool
  is_trapezoid :: bool
  skew_ratio :: real
  top_width :: real
  bottom_width :: real
  left_height :: real
  right_height :: real
  vertical_skew :: real
  horizontal_skew :: real
  text_region_count :: int
  text_regions_bounds :: "real list"
  overall_bounds :: "real list"
  coverage_ratio :: real

definition FrameAnalysisResult_new :: FrameAnalysisResult where
  "FrameAnalysisResult_new =
     \<lparr> document_found = False, table_found = False, text_region_found = False,
       result_corners = replicate 8 0, corner_confidence = 0, blur_score = 0,
       brightness_score = 0, stability_score = 0, overall_score = 0, capture_ready = False,
       is_trapezoid = False, skew_ratio = 0, top_width = 0, bottom_width = 0, left_height = 0,
       right_height = 0, vertical_skew = 0, horizontal_skew = 0, text_region_count = 0,
       text_regions_bounds = replicate 32 0, overall_bounds = replicate 4 0,
       coverage_ratio = 0 \<rparr>"

text \<open>
  The engine owns the assessor (with its stability history) and the last analysis; the
  detector, the corrector and the enhancer hold no state that any call changes.
\<close>

record CaptureEngine =
  assessor :: QualityAssessor
  last_analysis :: FrameAnalysisResult

definition CaptureEngine_new :: CaptureEngine where
  "CaptureEngine_new = \<lparr> assessor = QualityAssessor_new, last_analysis = FrameAnalysisResult_new \<rparr>"

definition CaptureEngine_reset :: "CaptureEngine \<Rightarrow> CaptureEngine" where
  "CaptureEngine_reset eng = eng\<lparr> assessor := QualityAssessor_reset (assessor eng) \<rparr>"

definition getLastAnalysis :: "CaptureEngine \<Rightarrow> FrameAnalysisResult" where
  "getLastAnalysis eng = last_analysis eng"

text \<open>The loop \<^verbatim>\<open>corners[i * 2] = pts[i].x; corners[i * 2 + 1] = pts[i].y\<close> for \<open>i < 4\<close>.\<close>

definition copy_corners :: "Point2f list \<Rightarrow> real list \<Rightarrow> real list" where
  "copy_corners pts out =
     foldl (\<lambda>c i. c[i * 2 := px (pts ! i), i * 2 + 1 := py (pts ! i)]) out [0..<4]"

text \<open>
  The trapezoid metrics of \<^verbatim>\<open>analyzeFrame\<close>, from corners in the order TL = 0, TR = 1,
  BR = 2, BL = 3.
\<close>

definition trapezoid_metrics :: "Point2f list \<Rightarrow> FrameAnalysisResult \<Rightarrow> FrameAnalysisResult" where
  "trapezoid_metrics pts result =
     (let topWidth = sqrt ((px (pts ! 1) - px (pts ! 0))\<^sup>2 + (py (pts ! 1) - py (pts ! 0))\<^sup>2);
          bottomWidth = sqrt ((px (pts ! 2) - px (pts ! 3))\<^sup>2 + (py (pts ! 2) - py (pts ! 3))\<^sup>2);
          leftHeight = sqrt ((px (pts ! 3) - px (pts ! 0))\<^sup>2 + (py (pts ! 3) - py (pts ! 0))\<^sup>2);
          rightHeight = sqrt ((px (pts ! 2) - px (pts ! 1))\<^sup>2 + (py (pts ! 2) - py (pts ! 1))\<^sup>2);
          avgWidth = (topWidth + bottomWidth) / 2;
          v_skew = (if avgWidth > 0 then \<bar>topWidth - bottomWidth\<bar> / avgWidth else 0);
          avgHeight = (leftHeight + rightHeight) / 2;
          h_skew = (if avgHeight > 0 then \<bar>leftHeight - rightHeight\<bar> / avgHeight else 0);
          skew = max v_skew h_skew
      in result\<lparr> top_width := topWidth, bottom_width := bottomWidth,
                 left_height := leftHeight, right_height := rightHeight,
                 vertical_skew := v_skew, horizontal_skew := h_skew,
                 skew_ratio := skew, is_trapezoid := (skew > 5 / 100) \<rparr>)"

text \<open>The branch of \<^verbatim>\<open>analyzeFrame\<close> taken when the detector found four corners.\<close>

definition analyze_table ::
  "Mat \<Rightarrow> Measurements \<Rightarrow> DetectionResult \<Rightarrow> FrameAnalysisResult \<Rightarrow> QualityAssessor
     \<Rightarrow> FrameAnalysisResult \<times> QualityAssessor" where
  "analyze_table frame ms detection result a =
     (let result = result\<lparr> table_found := True \<rparr>;
          result = result\<lparr> result_corners := copy_corners (det_corners detection) (result_corners result) \<rparr>;
          result = trapezoid_metrics (det_corners detection) result;
          (quality, a') = assess frame (m_blur ms) (m_brightness ms) (det_corners detection)
                            (det_confidence detection) a;
          result = result\<lparr> blur_score := q_blur_score quality,
                            brightness_score := q_brightness_score quality,
                            stability_score := q_stability_score quality,
                            overall_score := overall quality \<rparr>
      in (result\<lparr> capture_ready := (q_blur_score quality > 6 / 10 \<and>
                                      q_brightness_score quality > 5 / 10 \<and>
                                      q_stability_score quality > 8 / 10) \<rparr>, a'))"

text \<open>The copy of up to eight region bounds, four numbers per region.\<close>

definition copy_region_bounds :: "nat \<Rightarrow> TextRegion list \<Rightarrow> real list \<Rightarrow> real list" where
  "copy_region_bounds n regions out =
     foldl (\<lambda>b i. b[i * 4 + 0 := real_of_int (rect_x (region_bounds (regions ! i))),
                     i * 4 + 1 := real_of_int (rect_y (region_bounds (regions ! i))),
                     i * 4 + 2 := real_of_int (rect_width (region_bounds (regions ! i))),
                     i * 4 + 3 := real_of_int (rect_height (region_bounds (regions ! i)))])
       out [0..<n]"

text \<open>The branch taken otherwise: text regions, or the whole frame when there are none.\<close>

definition analyze_fallback ::
  "Mat \<Rightarrow> Measurements \<Rightarrow> FrameAnalysisResult \<Rightarrow> QualityAssessor
     \<Rightarrow> FrameAnalysisResult \<times> QualityAssessor" where
  "analyze_fallback frame ms result a =
     (let textRegions = m_textRegions ms;
          (result, a') =
            (if trs_found textRegions then
               (let result = result\<lparr> text_region_found := True,
                                      text_region_count := min (trs_regionCount textRegions) 8,
                                      coverage_ratio := trs_coverageRatio textRegions \<rparr>;
                    result = result\<lparr> overall_bounds :=
                               [real_of_int (rect_x (trs_overallBounds textRegions)),
                                real_of_int (rect_y (trs_overallBounds textRegions)),
                                real_of_int (rect_width (trs_overallBounds textRegions)),
                                real_of_int (rect_height (trs_overallBounds textRegions))] \<rparr>;
                    result = (if length (trs_overallCorners textRegions) = 4
                              then result\<lparr> result_corners :=
                                     copy_corners (trs_overallCorners textRegions) (result_corners result) \<rparr>
                              else result);
                    result = result\<lparr> text_regions_bounds :=
                               copy_region_bounds (nat (text_region_count result))
                                 (trs_regions textRegions) (text_regions_bounds result) \<rparr>;
                    result = result\<lparr> blur_score := m_regionBlur ms,
                                      brightness_score := m_regionBrightness ms \<rparr>;
                    (result, a') =
                      (if length (trs_overallCorners textRegions) = 4 then
                         (let (tempScore, a') = assess frame (m_blur ms) (m_brightness ms)
                                (trs_overallCorners textRegions) (trs_coverageRatio textRegions) a
                          in (result\<lparr> stability_score := q_stability_score tempScore \<rparr>, a'))
                       else (result, a));
                    result = result\<lparr> corner_confidence := trs_coverageRatio textRegions \<rparr>
                in (result\<lparr> overall_score :=
                      blur_score result * (4 / 10) + brightness_score result * (2 / 10)
                        + stability_score result * (2 / 10) + corner_confidence result * (2 / 10) \<rparr>, a'))
             else
               (result\<lparr> blur_score := m_blur ms, brightness_score := m_brightness ms \<rparr>, a))
      in (result\<lparr> capture_ready := (blur_score result > 6 / 10 \<and>
                                      brightness_score result > 5 / 10 \<and>
                                      stability_score result > 9 / 10) \<rparr>, a'))"

text \<open>
  \<^verbatim>\<open>CaptureEngine::analyzeFrame\<close>. \<open>image_data\<close> is \<open>None\<close> for a null pointer; the pixel
  content is read only by the primitives whose results are in \<open>ms\<close>.
\<close>

definition analyzeFrame ::
  "CaptureEngine \<Rightarrow> nat list option \<Rightarrow> int \<Rightarrow> int \<Rightarrow> int \<Rightarrow> int \<Rightarrow> int \<Rightarrow> int \<Rightarrow> int \<Rightarrow> int
     \<Rightarrow> Measurements \<Rightarrow> FrameAnalysisResult \<times> CaptureEngine" where
  "analyzeFrame eng image_data width height format rotation crop_x crop_y crop_w crop_h ms =
     (let result = FrameAnalysisResult_new
      in if image_data = None \<or> width \<le> 0 \<or> height \<le> 0 then (result, eng)
         else let frame = bufferToMat width height format
              in if mat_empty frame then (result, eng)
                 else let frame = rotate_frame rotation frame;
                          frame = crop_frame crop_x crop_y crop_w crop_h frame;
                          detection = DocumentDetector_detect frame (m_quad ms);
                          result = result\<lparr> document_found := det_found detection,
                                            corner_confidence := det_confidence detection \<rparr>;
                          (result, a') =
                            (if det_found detection \<and> length (det_corners detection) = 4
                             then analyze_table frame ms detection result (assessor eng)
                             else analyze_fallback frame ms result (assessor eng))
                      in (result, eng\<lparr> assessor := a', last_analysis := result \<rparr>))"

section \<open>PerspectiveCorrector\<close>

record CorrectionResult =
  corr_image :: Mat
  corr_success :: bool
  corr_width :: int
  corr_height :: int

definition CorrectionResult_new :: CorrectionResult where
  "CorrectionResult_new =
     \<lparr> corr_image = Mat_new, corr_success = False, corr_width = 0, corr_height = 0 \<rparr>"

text \<open>\<^verbatim>\<open>static_cast<int>\<close> of a floating-point value: truncation towards zero.\<close>

definition trunc_int :: "real \<Rightarrow> int" where
  "trunc_int v = (if v \<ge> 0 then \<lfloor>v\<rfloor> else \<lceil>v\<rceil>)"

definition calculateOutputSize :: "Point2f list \<Rightarrow> int \<times> int" where
  "calculateOutputSize pts =
     (let topWidth = pt_norm (pt_sub (pts ! 1) (pts ! 0));
          bottomWidth = pt_norm (pt_sub (pts ! 2) (pts ! 3));
          w = (topWidth + bottomWidth) / 2;
          leftHeight = pt_norm (pt_sub (pts ! 3) (pts ! 0));
          rightHeight = pt_norm (pt_sub (pts ! 2) (pts ! 1));
          h = (leftHeight + rightHeight) / 2;
          w = max w 100;
          h = max h 100
      in (trunc_int w, trunc_int h))"

text \<open>
  \<^verbatim>\<open>PerspectiveCorrector::correct\<close>. The transform is computed by
  \<^verbatim>\<open>cv::getPerspectiveTransform\<close> and applied by \<^verbatim>\<open>cv::warpPerspective\<close>; the code reads
  no status from either, and the warped image has the output size and the channels of
  the input.
\<close>

definition correct :: "Mat \<Rightarrow> Point2f list \<Rightarrow> int \<times> int \<Rightarrow> CorrectionResult" where
  "correct img pts outputSize =
     (if mat_empty img \<or> length pts \<noteq> 4 then CorrectionResult_new
      else let ordered = PerspectiveCorrector_orderCorners pts;
               outputSize = (if fst outputSize = 0 \<or> snd outputSize = 0
                             then calculateOutputSize ordered else outputSize)
           in \<lparr> corr_image = \<lparr> mat_rows = snd outputSize, mat_cols = fst outputSize,
                                 mat_channels = mat_channels img \<rparr>,
                corr_success = True, corr_width = fst outputSize,
                corr_height = snd outputSize \<rparr>)"

section \<open>ImageEnhancer, on shapes\<close>

text \<open>
  Every enhancer routine returns an empty input as it is. The colour routines keep the
  shape of a one-channel or three-channel image; the two binarizers return a
  three-channel image (\<^verbatim>\<open>COLOR_GRAY2BGR\<close>) of the same size.
\<close>

definition via_Lab :: "Mat \<Rightarrow> Mat" where
  "via_Lab m = (if mat_empty m then m
                else if mat_channels m = 1 then m else m\<lparr> mat_channels := 3 \<rparr>)"

definition enhance :: "Mat \<Rightarrow> Mat" where
  "enhance m = via_Lab m"

definition sharpen :: "Mat \<Rightarrow> real \<Rightarrow> Mat" where
  "sharpen m strength = m"

definition whitenBackground :: "Mat \<Rightarrow> int \<Rightarrow> Mat" where
  "whitenBackground m threshold = m"

definition stretchContrast :: "Mat \<Rightarrow> Mat" where
  "stretchContrast m = via_Lab m"

definition adaptiveBinarize_shape :: "Mat \<Rightarrow> Mat" where
  "adaptiveBinarize_shape m = (if mat_empty m then m else m\<lparr> mat_channels := 3 \<rparr>)"

definition sauvolaBinarize_shape :: "Mat \<Rightarrow> Mat" where
  "sauvolaBinarize_shape m = (if mat_empty m then m else m\<lparr> mat_channels := 3 \<rparr>)"

section \<open>CaptureEngine: enhancement\<close>

datatype EnhanceMode =
  ENHANCE_NONE | ENHANCE_WHITEN_BG | ENHANCE_CONTRAST_STRETCH | ENHANCE_ADAPTIVE_BINARIZE
  | ENHANCE_SAUVOLA

record EnhancementOptions =
  apply_crop :: bool
  apply_perspective_correction :: bool
  apply_deskew :: bool
  apply_auto_enhance :: bool
  apply_sharpening :: bool
  sharpening_strength :: real
  enhance_mode :: EnhanceMode
  output_width :: int
  output_height :: int

definition EnhancementOptions_new :: EnhancementOptions where
  "EnhancementOptions_new =
     \<lparr> apply_crop = False, apply_perspective_correction = True, apply_deskew = False,
       apply_auto_enhance = False, apply_sharpening = False, sharpening_strength = 5 / 10,
       enhance_mode = ENHANCE_NONE, output_width = 0, output_height = 0 \<rparr>"

text \<open>
  The output buffer is modelled by its presence and size: \<open>None\<close> is the null pointer,
  \<open>Some n\<close> a buffer of \<open>n\<close> bytes copied from the processed image.
\<close>

record EnhancementResult =
  res_image_data :: "int option"
  res_width :: int
  res_height :: int
  channels :: int
  stride :: int
  success :: bool
  error_message :: string

definition EnhancementResult_new :: EnhancementResult where
  "EnhancementResult_new =
     \<lparr> res_image_data = None, res_width = 0, res_height = 0, channels = 0, stride = 0,
       success = False, error_message = [] \<rparr>"

definition fail_with :: "string \<Rightarrow> EnhancementResult" where
  "fail_with msg = EnhancementResult_new\<lparr> error_message := msg \<rparr>"

text \<open>The rectangular crop to the bounding box of the eight corner coordinates.\<close>

definition crop_to_corners :: "real list \<Rightarrow> Mat \<Rightarrow> Mat" where
  "crop_to_corners c frame =
     (let minX = Min {c ! 0, c ! 2, c ! 4, c ! 6};
          maxX = Max {c ! 0, c ! 2, c ! 4, c ! 6};
          minY = Min {c ! 1, c ! 3, c ! 5, c ! 7};
          maxY = Max {c ! 1, c ! 3, c ! 5, c ! 7};
          x = max 0 (trunc_int minX);
          y = max 0 (trunc_int minY);
          w = min (mat_cols frame - x) (trunc_int (maxX - minX));
          h = min (mat_rows frame - y) (trunc_int (maxY - minY))
      in if w > 0 \<and> h > 0 then frame\<lparr> mat_rows := h, mat_cols := w \<rparr> else frame)"

text \<open>
  The block \<^verbatim>\<open>if (options.apply_perspective_correction) { ... }\<close> of both enhance
  routines: the four points are built from the eight coordinates, and a failed
  correction ends the call with a message.
\<close>

definition perspective_step :: "EnhancementOptions \<Rightarrow> real list \<Rightarrow> Mat \<Rightarrow> string + Mat" where
  "perspective_step options c processed =
     (if apply_perspective_correction options then
        (let cornerPoints = [Point2f (c ! 0) (c ! 1), Point2f (c ! 2) (c ! 3),
                             Point2f (c ! 4) (c ! 5), Point2f (c ! 6) (c ! 7)];
             correction = correct processed cornerPoints
                            (output_width options, output_height options)
         in if corr_success correction then Inr (corr_image correction)
            else Inl ''Perspective correction failed'')
      else Inr processed)"

definition to_BGR :: "Mat \<Rightarrow> Mat" where
  "to_BGR m = (if mat_channels m = 4 then m\<lparr> mat_channels := 3 \<rparr> else m)"

definition apply_enhance_mode :: "EnhanceMode \<Rightarrow> Mat \<Rightarrow> Mat" where
  "apply_enhance_mode mode m =
     (case mode of
        ENHANCE_WHITEN_BG \<Rightarrow> whitenBackground m 200
      | ENHANCE_CONTRAST_STRETCH \<Rightarrow> stretchContrast m
      | ENHANCE_ADAPTIVE_BINARIZE \<Rightarrow> adaptiveBinarize_shape m
      | ENHANCE_SAUVOLA \<Rightarrow> sauvolaBinarize_shape m
      | ENHANCE_NONE \<Rightarrow> m)"

text \<open>The end of both routines: the result is filled in and the buffer allocated.\<close>

definition output_result :: "Mat \<Rightarrow> EnhancementResult" where
  "output_result processed =
     EnhancementResult_new
       \<lparr> res_image_data := Some (mat_rows processed * mat_cols processed * mat_channels processed),
         res_width := mat_cols processed, res_height := mat_rows processed,
         channels := mat_channels processed,
         stride := mat_cols processed * mat_channels processed,
         success := True \<rparr>"

text \<open>\<^verbatim>\<open>CaptureEngine::enhanceImage\<close>; \<open>corners8\<close> is \<open>None\<close> for a null pointer.\<close>

definition enhanceImage ::
  "nat list option \<Rightarrow> int \<Rightarrow> int \<Rightarrow> int \<Rightarrow> real list option \<Rightarrow> EnhancementOptions
     \<Rightarrow> EnhancementResult" where
  "enhanceImage image_data width height format corners8 options =
     (if image_data = None \<or> width \<le> 0 \<or> height \<le> 0 then fail_with ''Invalid image data''
      else case corners8 of
        None \<Rightarrow> fail_with ''Corners not provided''
      | Some c \<Rightarrow>
          (let frame = bufferToMat width height format
           in if mat_empty frame then fail_with ''Failed to create image from buffer''
              else let processed =
                         (if apply_crop options \<and> \<not> apply_perspective_correction options
                          then crop_to_corners c frame else frame)
                   in case perspective_step options c processed of
                        Inl msg \<Rightarrow> fail_with msg
                      | Inr processed \<Rightarrow>
                          (let processed = to_BGR processed;
                               processed = (if apply_auto_enhance options
                                            then enhance processed else processed);
                               processed = (if apply_sharpening options
                                            then sharpen processed (sharpening_strength options)
                                            else processed);
                               processed = apply_enhance_mode (enhance_mode options) processed
                           in output_result processed)))"

text \<open>\<^verbatim>\<open>CaptureEngine::calculateVirtualTrapezoid\<close>; the x and the y coordinates are kept
  as \<open>(tl, tr, br, bl)\<close>.\<close>

definition apply_vertical_skew ::
  "FrameAnalysisResult \<Rightarrow> real \<Rightarrow> real \<times> real \<times> real \<times> real \<Rightarrow> real \<times> real \<times> real \<times> real" where
  "apply_vertical_skew la guide_width xs =
     (case xs of (tl_x, tr_x, br_x, bl_x) \<Rightarrow>
        if vertical_skew la > 1 / 100 then
          (let topW = top_width la;
               bottomW = bottom_width la;
               avgW = (topW + bottomW) / 2
           in if avgW > 0 then
                (let skewDiff = (bottomW - topW) / avgW;
                     h_adjustment = guide_width * \<bar>skewDiff\<bar> / 2
                 in if bottomW > topW
                    then (tl_x + h_adjustment, tr_x - h_adjustment, br_x, bl_x)
                    else (tl_x, tr_x, br_x - h_adjustment, bl_x + h_adjustment))
              else xs)
        else xs)"

definition apply_horizontal_skew ::
  "FrameAnalysisResult \<Rightarrow> real \<Rightarrow> real \<times> real \<times> real \<times> real \<Rightarrow> real \<times> real \<times> real \<times> real" where
  "apply_horizontal_skew la guide_height ys =
     (case ys of (tl_y, tr_y, br_y, bl_y) \<Rightarrow>
        if horizontal_skew la > 1 / 100 then
          (let leftH = left_height la;
               rightH = right_height la;
               avgH = (leftH + rightH) / 2
           in if avgH > 0 then
                (let skewDiff = (rightH - leftH) / avgH;
                     v_adjustment = guide_height * \<bar>skewDiff\<bar> / 2
                 in if rightH > leftH
                    then (tl_y + v_adjustment, tr_y, br_y, bl_y - v_adjustment)
                    else (tl_y, tr_y + v_adjustment, br_y - v_adjustment, bl_y))
              else ys)
        else ys)"

definition calculateVirtualTrapezoid ::
  "CaptureEngine \<Rightarrow> real \<Rightarrow> real \<Rightarrow> real \<Rightarrow> real \<Rightarrow> real list" where
  "calculateVirtualTrapezoid eng guide_left guide_top guide_right guide_bottom =
     (let guide_width = guide_right - guide_left;
          guide_height = guide_bottom - guide_top;
          xs = (guide_left, guide_right, guide_right, guide_left);
          ys = (guide_top, guide_top, guide_bottom, guide_bottom);
          (xs, ys) =
            (if table_found (last_analysis eng) \<and> is_trapezoid (last_analysis eng)
             then (apply_vertical_skew (last_analysis eng) guide_width xs,
                   apply_horizontal_skew (last_analysis eng) guide_height ys)
             else (xs, ys))
      in case (xs, ys) of ((tl_x, tr_x, br_x, bl_x), (tl_y, tr_y, br_y, bl_y)) \<Rightarrow>
           [tl_x, tl_y, tr_x, tr_y, br_x, br_y, bl_x, bl_y])"

text \<open>\<^verbatim>\<open>CaptureEngine::enhanceImageWithGuideFrame\<close>.\<close>

definition enhanceImageWithGuideFrame ::
  "CaptureEngine \<Rightarrow> nat list option \<Rightarrow> int \<Rightarrow> int \<Rightarrow> int \<Rightarrow> real \<Rightarrow> real \<Rightarrow> real \<Rightarrow> real
     \<Rightarrow> EnhancementOptions \<Rightarrow> int \<Rightarrow> EnhancementResult" where
  "enhanceImageWithGuideFrame eng image_data width height format
       guide_left guide_top guide_right guide_bottom options rotation =
     (if image_data = None \<or> width \<le> 0 \<or> height \<le> 0 then fail_with ''Invalid image data''
      else let frame = bufferToMat width height format
           in if mat_empty frame then fail_with ''Failed to create image from buffer''
              else let frame = rotate_frame rotation frame;
                       c = calculateVirtualTrapezoid eng guide_left guide_top guide_right guide_bottom;
                       adjusted_options = options\<lparr> apply_perspective_correction :=
                           (table_found (last_analysis eng) \<and> is_trapezoid (last_analysis eng)) \<rparr>;
                       adjusted_options = adjusted_options\<lparr> apply_crop :=
                           (\<not> apply_perspective_correction adjusted_options) \<rparr>;
                       processed =
                         (if apply_crop adjusted_options
                               \<and> \<not> apply_perspective_correction adjusted_options
                          then crop_to_corners c frame else frame)
                   in case perspective_step adjusted_options c processed of
                        Inl msg \<Rightarrow> fail_with msg
                      | Inr processed \<Rightarrow>
                          (let processed = to_BGR processed;
                               processed = (if apply_sharpening adjusted_options
                                            then sharpen processed (sharpening_strength adjusted_options)
                                            else processed);
                               processed = apply_enhance_mode (enhance_mode adjusted_options) processed
                           in output_result processed))"

section \<open>Concrete inputs\<close>

text \<open>A trapezoid in corner order: top edge 6, bottom edge 12, both sides 5.\<close>

definition sample_trapezoid :: "Point2f list" where
  "sample_trapezoid = [Point2f 3 0, Point2f 9 0, Point2f 12 4, Point2f 0 4]"

text \<open>
  Measurements of a frame in which the detector found the trapezoid above and no text
  analysis was needed.
\<close>

definition sample_measurements :: Measurements where
  "sample_measurements =
     \<lparr> m_quad = sample_trapezoid, m_blur = 7 / 10, m_brightness = 8 / 10,
       m_textRegions = \<lparr> trs_found = False, trs_regions = [],
                          trs_overallBounds = \<lparr> rect_x = 0, rect_y = 0, rect_width = 0, rect_height = 0 \<rparr>,
                          trs_overallCorners = [], trs_regionCount = 0, trs_totalArea = 0,
                          trs_coverageRatio = 0 \<rparr>,
       m_regionBlur = 0, m_regionBrightness = 0 \<rparr>"

text \<open>An engine that has analysed that frame (20 by 10 pixels, BGR, no rotation, no crop).\<close>

definition sample_engine :: CaptureEngine where
  "sample_engine =
     snd (analyzeFrame CaptureEngine_new (Some []) 20 10 1 0 0 0 0 0 sample_measurements)"

text \<open>
  Corner sets for which no perspective transform onto a rectangle exists: three of the
  four points lie on one line (which includes coinciding points).
\<close>

definition collinear3 :: "Point2f \<Rightarrow> Point2f \<Rightarrow> Point2f \<Rightarrow> bool" where
  "collinear3 p q r \<longleftrightarrow>
     (px q - px p) * (py r - py p) - (py q - py p) * (px r - px p) = 0"

definition degenerate_quad :: "Point2f list \<Rightarrow> bool" where
  "degenerate_quad pts \<longleftrightarrow>
     collinear3 (pts ! 0) (pts ! 1) (pts ! 2) \<or> collinear3 (pts ! 0) (pts ! 1) (pts ! 3)
     \<or> collinear3 (pts ! 0) (pts ! 2) (pts ! 3) \<or> collinear3 (pts ! 1) (pts ! 2) (pts ! 3)"

section \<open>ImageEnhancer: Sauvola binarization\<close>

text \<open>
  For the binarizer an image is modelled with its pixels: \<open>pm_at m y x c\<close> is channel \<open>c\<close>
  of the pixel in row \<open>y\<close> and column \<open>x\<close>, an \<^verbatim>\<open>uchar\<close>.
\<close>

type_synonym uchar = "8 word"

record PixelMat =
  pm_rows :: int
  pm_cols :: int
  pm_channels :: int
  pm_at :: "int \<Rightarrow> int \<Rightarrow> int \<Rightarrow> uchar"

definition pm_empty :: "PixelMat \<Rightarrow> bool" where
  "pm_empty m \<longleftrightarrow> pm_rows m = 0 \<or> pm_cols m = 0"

text \<open>
  \<^verbatim>\<open>cv::integral\<close> of OpenCV: entry \<open>(Y, X)\<close> of the table is the sum of the source over
  the rows above \<open>Y\<close> and the columns left of \<open>X\<close>.
\<close>

definition integral :: "(int \<Rightarrow> int \<Rightarrow> real) \<Rightarrow> int \<Rightarrow> int \<Rightarrow> real" where
  "integral f Y X = (\<Sum>y = 0..<Y. \<Sum>x = 0..<X. f y x)"

text \<open>\<^verbatim>\<open>windowSize / 2\<close> on \<^verbatim>\<open>int\<close>: the quotient is truncated towards zero.\<close>

definition c_div2 :: "int \<Rightarrow> int" where
  "c_div2 n = (if n \<ge> 0 then n div 2 else - ((- n) div 2))"

text \<open>
  The body of the pixel loop up to the threshold (\<open>winSum\<close> and \<open>winSqSum\<close> are the
  source's \<^verbatim>\<open>sum\<close> and \<^verbatim>\<open>sqSum\<close>).
\<close>

definition sauvola_threshold_at :: "PixelMat \<Rightarrow> int \<Rightarrow> real \<Rightarrow> real \<Rightarrow> int \<Rightarrow> int \<Rightarrow> real" where
  "sauvola_threshold_at gray halfWindow k R y x =
     (let floatGray = (\<lambda>y x. real (unat (pm_at gray y x 0)));
          integralSum = integral floatGray;
          integralSqSum = integral (\<lambda>y x. floatGray y x * floatGray y x);
          x1 = max 0 (x - halfWindow);
          y1 = max 0 (y - halfWindow);
          x2 = min (pm_cols gray - 1) (x + halfWindow);
          y2 = min (pm_rows gray - 1) (y + halfWindow);
          area = (x2 - x1 + 1) * (y2 - y1 + 1);
          winSum = integralSum (y2 + 1) (x2 + 1) - integralSum y1 (x2 + 1)
                     - integralSum (y2 + 1) x1 + integralSum y1 x1;
          winSqSum = integralSqSum (y2 + 1) (x2 + 1) - integralSqSum y1 (x2 + 1)
                       - integralSqSum (y2 + 1) x1 + integralSqSum y1 x1;
          mean = winSum / real_of_int area;
          variance = (winSqSum / real_of_int area) - (mean * mean);
          stddev = sqrt (max 0 variance)
      in mean * (1 + k * (stddev / R - 1)))"

text \<open>The assignment \<^verbatim>\<open>binary.at<uchar>(y, x) = 255\<close>.\<close>

definition set_pixel :: "PixelMat \<Rightarrow> int \<Rightarrow> int \<Rightarrow> uchar \<Rightarrow> PixelMat" where
  "set_pixel m y x v = m\<lparr> pm_at := (pm_at m)(y := (pm_at m y)(x := (pm_at m y x)(0 := v))) \<rparr>"

text \<open>The inner loop over the columns of row \<open>y\<close>, and the outer loop over the rows.\<close>

definition sauvola_row :: "PixelMat \<Rightarrow> int \<Rightarrow> real \<Rightarrow> real \<Rightarrow> int \<Rightarrow> PixelMat \<Rightarrow> PixelMat" where
  "sauvola_row gray halfWindow k R y binary =
     foldl (\<lambda>b x. if real (unat (pm_at gray y x 0)) > sauvola_threshold_at gray halfWindow k R y x
                   then set_pixel b y x 255 else b)
       binary [0..pm_cols gray - 1]"

definition sauvola_rows :: "PixelMat \<Rightarrow> int \<Rightarrow> real \<Rightarrow> real \<Rightarrow> PixelMat \<Rightarrow> PixelMat" where
  "sauvola_rows gray halfWindow k R binary =
     foldl (\<lambda>b y. sauvola_row gray halfWindow k R y b) binary [0..pm_rows gray - 1]"

text \<open>\<^verbatim>\<open>cv::Mat::zeros(size, CV_8U)\<close> and \<^verbatim>\<open>cv::cvtColor(..., COLOR_GRAY2BGR)\<close>.\<close>

definition zeros :: "int \<Rightarrow> int \<Rightarrow> PixelMat" where
  "zeros rows cols = \<lparr> pm_rows = rows, pm_cols = cols, pm_channels = 1, pm_at = (\<lambda>y x c. 0) \<rparr>"

definition GRAY2BGR :: "PixelMat \<Rightarrow> PixelMat" where
  "GRAY2BGR m = \<lparr> pm_rows = pm_rows m, pm_cols = pm_cols m, pm_channels = 3,
                  pm_at = (\<lambda>y x c. pm_at m y x 0) \<rparr>"

text \<open>
  \<^verbatim>\<open>ImageEnhancer::sauvolaBinarize\<close>; \<open>bgr2gray\<close> is OpenCV's conversion of a colour image
  to grey, applied to an input that does not have one channel.
\<close>

definition sauvolaBinarize ::
  "(PixelMat \<Rightarrow> PixelMat) \<Rightarrow> PixelMat \<Rightarrow> int \<Rightarrow> real \<Rightarrow> real \<Rightarrow> PixelMat" where
  "sauvolaBinarize bgr2gray input windowSize k R =
     (if pm_empty input then input
      else let gray = (if pm_channels input = 1 then input else bgr2gray input);
               windowSize = (if windowSize mod 2 = 0 then windowSize + 1 else windowSize);
               halfWindow = c_div2 windowSize;
               binary = sauvola_rows gray halfWindow k R (zeros (pm_rows gray) (pm_cols gray))
           in GRAY2BGR binary)"

text \<open>
  The specification's words: the window of the given (odd) size centred at the pixel,
  cut to the image; the mean and the standard deviation of the intensities in it.
\<close>

definition intensity :: "PixelMat \<Rightarrow> int \<Rightarrow> int \<Rightarrow> real" where
  "intensity gray r c = real (unat (pm_at gray r c 0))"

definition clipped_window :: "PixelMat \<Rightarrow> int \<Rightarrow> int \<Rightarrow> int \<Rightarrow> (int \<times> int) set" where
  "clipped_window gray w y x =
     {r. 0 \<le> r \<and> r < pm_rows gray \<and> 2 * \<bar>r - y\<bar> < w}
       \<times> {c. 0 \<le> c \<and> c < pm_cols gray \<and> 2 * \<bar>c - x\<bar> < w}"

definition window_mean :: "PixelMat \<Rightarrow> (int \<times> int) set \<Rightarrow> real" where
  "window_mean gray W = (\<Sum>(r, c)\<in>W. intensity gray r c) / real (card W)"

definition window_stddev :: "PixelMat \<Rightarrow> (int \<times> int) set \<Rightarrow> real" where
  "window_stddev gray W =
     sqrt ((\<Sum>(r, c)\<in>W. (intensity gray r c - window_mean gray W)\<^sup>2) / real (card W))"

definition odd_size :: "int \<Rightarrow> int" where
  "odd_size windowSize = (if even windowSize then windowSize + 1 else windowSize)"

text \<open>A one-pixel grey image of the given intensity.\<close>

definition one_pixel :: "uchar \<Rightarrow> PixelMat" where
  "one_pixel v = \<lparr> pm_rows = 1, pm_cols = 1, pm_channels = 1, pm_at = (\<lambda>y x c. v) \<rparr>"

section \<open>Properties of the stability history\<close>

lemma checkStability_history_bound:
  "length (corner_history a) \<le> MAX_HISTORY
   \<Longrightarrow> length (corner_history (snd (checkStability corners a))) \<le> MAX_HISTORY"
  by (auto simp: checkStability_def MAX_HISTORY_def Let_def split: prod.splits)

lemma assessor_step_history_bound:
  "length (corner_history a) \<le> MAX_HISTORY
   \<Longrightarrow> length (corner_history (assessor_step a c)) \<le> MAX_HISTORY"
  by (cases c) (simp_all add: checkStability_history_bound QualityAssessor_reset_def)

lemma assessor_run_history_bound:
  "length (corner_history a) \<le> MAX_HISTORY
   \<Longrightarrow> length (corner_history (assessor_run calls a)) \<le> MAX_HISTORY"
  unfolding assessor_run_def
  by (induction calls arbitrary: a) (simp_all add: assessor_step_history_bound)

lemma checkStability_history:
  "length corners = 4 \<Longrightarrow>
   corner_history (snd (checkStability corners a)) =
     (let pushed = corner_history a @ [corners]
      in if length pushed > MAX_HISTORY then tl pushed else pushed)"
  by (auto simp: checkStability_def MAX_HISTORY_def Let_def split: prod.splits)

lemma push_evict:
  "length h \<le> MAX_HISTORY \<Longrightarrow>
   (let pushed = h @ [c] in if length pushed > MAX_HISTORY then tl pushed else pushed)
     = drop (length (h @ [c]) - MAX_HISTORY) (h @ [c])"
proof (cases "length h = MAX_HISTORY")
  case True
  then have "length (h @ [c]) - MAX_HISTORY = Suc 0" "length (h @ [c]) > MAX_HISTORY"
    by simp_all
  then show ?thesis by (simp only: Let_def if_True drop_Suc drop_0)
next
  case False
  assume "length h \<le> MAX_HISTORY"
  with False show ?thesis by (simp add: Let_def)
qed

lemma drop_drop_tail:
  "k \<le> length zs - m \<Longrightarrow> drop (length (drop k zs) - m) (drop k zs) = drop (length zs - m) zs"
proof -
  assume "k \<le> length zs - m"
  then have "k + (length zs - (k + m)) = length zs - m" by arith
  then show ?thesis by (simp add: add.commute)
qed

lemma history_after_calls:
  "\<forall>c\<in>set cs. length c = 4 \<Longrightarrow> length (corner_history a) \<le> MAX_HISTORY \<Longrightarrow>
   corner_history (assessor_run (map CheckStability cs) a)
     = drop (length (corner_history a @ cs) - MAX_HISTORY) (corner_history a @ cs)"
proof (induction cs arbitrary: a)
  case Nil
  then show ?case by (simp add: assessor_run_def)
next
  case (Cons c cs)
  let ?a' = "snd (checkStability c a)"
  let ?k = "length (corner_history a @ [c]) - MAX_HISTORY"
  have h': "corner_history ?a' = drop ?k (corner_history a @ [c])"
    using Cons.prems push_evict[of "corner_history a" c] by (simp add: checkStability_history)
  have k: "?k \<le> length (corner_history a)"
    by (simp add: MAX_HISTORY_def)
  have app: "corner_history ?a' @ cs = drop ?k (corner_history a @ c # cs)"
    using k unfolding h' by simp
  have b: "length (corner_history ?a') \<le> MAX_HISTORY"
    using Cons.prems(2) by (rule checkStability_history_bound)
  have "corner_history (assessor_run (map CheckStability (c # cs)) a)
      = corner_history (assessor_run (map CheckStability cs) ?a')"
    by (simp add: assessor_run_def)
  also have "\<dots> = drop (length (corner_history ?a' @ cs) - MAX_HISTORY) (corner_history ?a' @ cs)"
    using Cons.IH[of ?a'] Cons.prems(1) b by simp
  also have "\<dots> = drop (length (corner_history a @ c # cs) - MAX_HISTORY) (corner_history a @ c # cs)"
    unfolding app by (rule drop_drop_tail) simp
  finally show ?case .
qed

text \<open>
  Claim C5. Starting from a fresh assessor, after any sequence of \<^verbatim>\<open>checkStability\<close> and
  \<^verbatim>\<open>reset\<close> calls the corner history holds at most 5 entries; and six further
  \<^verbatim>\<open>checkStability\<close> calls with distinct 4-point inputs leave exactly the five most recent
  inputs in the history, in order of arrival, the first of the six being evicted.
\<close>

theorem corner_history_bounded_fifo:
  "length (corner_history (assessor_run calls QualityAssessor_new)) \<le> 5 \<and>
   (length c1 = 4 \<and> length c2 = 4 \<and> length c3 = 4 \<and> length c4 = 4 \<and> length c5 = 4
      \<and> length c6 = 4 \<and> distinct [c1, c2, c3, c4, c5, c6] \<longrightarrow>
    corner_history (assessor_run (map CheckStability [c1, c2, c3, c4, c5, c6])
                      (assessor_run calls QualityAssessor_new)) = [c2, c3, c4, c5, c6]
    \<and> c1 \<notin> set (corner_history (assessor_run (map CheckStability [c1, c2, c3, c4, c5, c6])
                      (assessor_run calls QualityAssessor_new))))"
proof -
  let ?a = "assessor_run calls QualityAssessor_new"
  have bound: "length (corner_history ?a) \<le> MAX_HISTORY"
    by (rule assessor_run_history_bound) (simp add: QualityAssessor_new_def)
  have fifo: "corner_history (assessor_run (map CheckStability [c1, c2, c3, c4, c5, c6]) ?a)
                = [c2, c3, c4, c5, c6]"
    if "length c1 = 4" "length c2 = 4" "length c3 = 4" "length c4 = 4" "length c5 = 4" "length c6 = 4"
  proof -
    have "corner_history (assessor_run (map CheckStability [c1, c2, c3, c4, c5, c6]) ?a)
        = drop (length (corner_history ?a @ [c1, c2, c3, c4, c5, c6]) - MAX_HISTORY)
            (corner_history ?a @ [c1, c2, c3, c4, c5, c6])"
      using that bound by (intro history_after_calls) simp_all
    also have "\<dots> = [c2, c3, c4, c5, c6]"
      by (simp add: MAX_HISTORY_def)
    finally show ?thesis .
  qed
  show ?thesis
    using bound fifo by (auto simp: MAX_HISTORY_def)
qed

theorem corner_history_bounded_fifo_witness:
  "corner_history (assessor_run (map CheckStability
      [sample_quad 1, sample_quad 2, sample_quad 3, sample_quad 4, sample_quad 5, sample_quad 6])
      QualityAssessor_new)
   = [sample_quad 2, sample_quad 3, sample_quad 4, sample_quad 5, sample_quad 6]
   \<and> sample_quad 1 \<notin> set (corner_history (assessor_run (map CheckStability
      [sample_quad 1, sample_quad 2, sample_quad 3, sample_quad 4, sample_quad 5, sample_quad 6])
      QualityAssessor_new))"
  using corner_history_bounded_fifo [of "[]" "sample_quad 1" "sample_quad 2" "sample_quad 3"
      "sample_quad 4" "sample_quad 5" "sample_quad 6"]
  by (simp add: sample_quad_def assessor_run_def)

lemma add_displacements_sum:
  "add_displacements n corners prev acc
     = acc + (\<Sum>i\<leftarrow>[0..<n]. corner_distance (corners ! i) (prev ! i))"
  by (induction n) (simp_all add: corner_distance_def pt_norm_def pt_sub_def)

lemma scan_history_sum:
  "\<forall>prev\<in>set history. length prev = 4 \<Longrightarrow>
   scan_history corners history (acc, k)
     = (acc + (\<Sum>prev\<leftarrow>history. \<Sum>i\<leftarrow>[0..<4]. corner_distance (corners ! i) (prev ! i)),
        k + 4 * int (length history))"
  by (induction history arbitrary: acc k) (simp_all add: add_displacements_sum algebra_simps)

lemma displacement_sum_nonneg:
  "0 \<le> (\<Sum>prev\<leftarrow>history. \<Sum>i\<leftarrow>[0..<4]. corner_distance (corners ! i) (prev ! i))"
  by (intro sum_list_nonneg) (auto simp: corner_distance_def intro!: sum_list_nonneg)

lemma checkStability_score:
  assumes "length corners = 4" "\<forall>prev\<in>set (corner_history a). length prev = 4"
  shows "fst (checkStability corners a) =
           (if length (corner_history a) < 3 then 0
            else max 0 (1 - avgDisplacement_spec corners (corner_history a) / 20))"
proof (cases "length (corner_history a) < 3")
  case True
  with assms show ?thesis by (simp add: checkStability_def)
next
  case False
  then have pos: "0 < 4 * int (length (corner_history a))" by (cases "corner_history a") auto
  show ?thesis
    using assms False pos
    by (simp add: checkStability_def scan_history_sum avgDisplacement_spec_def Let_def)
qed

lemma checkStability_score_range:
  assumes "length corners = 4" "\<forall>prev\<in>set (corner_history a). length prev = 4"
  shows "0 \<le> fst (checkStability corners a) \<and> fst (checkStability corners a) \<le> 1"
proof -
  have "0 \<le> avgDisplacement_spec corners (corner_history a)"
    unfolding avgDisplacement_spec_def
    by (intro divide_nonneg_nonneg displacement_sum_nonneg) simp
  then show ?thesis
    using assms by (simp add: checkStability_score)
qed

lemma stability_scores_nth:
  "n < length cs \<Longrightarrow>
   stability_scores cs a ! n
     = fst (checkStability (cs ! n) (assessor_run (map CheckStability (take n cs)) a))"
proof (induction cs arbitrary: n a)
  case Nil
  then show ?case by simp
next
  case (Cons c cs)
  show ?case
  proof (cases n)
    case 0
    then show ?thesis by (simp add: assessor_run_def)
  next
    case (Suc m)
    with Cons.prems have "m < length cs" by simp
    from Cons.IH[OF this] Suc show ?thesis by (simp add: assessor_run_def)
  qed
qed

lemma history_after_reset:
  assumes "\<forall>c\<in>set cs. length c = 4" and "n \<le> length cs"
  shows "corner_history (assessor_run (map CheckStability (take n cs)) (QualityAssessor_reset a))
           = retained n cs"
proof -
  have "\<forall>c\<in>set (take n cs). length c = 4"
    using assms by (auto dest: in_set_takeD)
  then have "corner_history (assessor_run (map CheckStability (take n cs)) (QualityAssessor_reset a))
      = drop (length (take n cs) - MAX_HISTORY) (take n cs)"
    using history_after_calls[of "take n cs" "QualityAssessor_reset a"]
    by (simp add: QualityAssessor_reset_def)
  then show ?thesis
    using assms(2) by (simp add: retained_def min_def)
qed

text \<open>
  Claim C6. After a reset, consecutive \<^verbatim>\<open>checkStability\<close> calls with 4-point inputs
  return 0 on the first two calls and a value in \<open>[0, 1]\<close> on every call. Warm-up lasts
  while the history holds fewer than three samples, which the third call still finds, so
  that call returns 0 as well; from the fourth call on (call number \<open>n \<ge> 3\<close>, counted
  from 0) the value is \<open>max 0 (1 - avgDisplacement / 20)\<close>, the mean being taken over the
  four corners of every retained corner set.
\<close>

theorem checkStability_after_reset:
  assumes "\<forall>c\<in>set cs. length c = 4" and "n < length cs"
  shows "(n < 2 \<longrightarrow> stability_scores cs (QualityAssessor_reset a) ! n = 0)
       \<and> (n = 2 \<longrightarrow> stability_scores cs (QualityAssessor_reset a) ! n = 0)
       \<and> 0 \<le> stability_scores cs (QualityAssessor_reset a) ! n
       \<and> stability_scores cs (QualityAssessor_reset a) ! n \<le> 1
       \<and> (3 \<le> n \<longrightarrow> stability_scores cs (QualityAssessor_reset a) ! n
             = max 0 (1 - avgDisplacement_spec (cs ! n) (retained n cs) / 20))"
proof -
  let ?a = "assessor_run (map CheckStability (take n cs)) (QualityAssessor_reset a)"
  have hist: "corner_history ?a = retained n cs"
    using history_after_reset[OF assms(1), of n a] assms(2) by simp
  have len: "length (cs ! n) = 4"
    using assms by simp
  have all4: "\<forall>prev\<in>set (corner_history ?a). length prev = 4"
    unfolding hist retained_def using assms(1) by (auto dest!: in_set_dropD in_set_takeD)
  have hlen: "length (corner_history ?a) = min n MAX_HISTORY"
    unfolding hist retained_def using assms(2) by (simp add: min_def)
  have score: "stability_scores cs (QualityAssessor_reset a) ! n = fst (checkStability (cs ! n) ?a)"
    using assms(2) by (rule stability_scores_nth)
  show ?thesis
    unfolding score
    using checkStability_score[OF len all4] checkStability_score_range[OF len all4] hlen hist
    by (auto simp: MAX_HISTORY_def)
qed

theorem checkStability_after_reset_witness:
  "3 < length [sample_quad 0, sample_quad 0, sample_quad 0, sample_quad 2]
   \<and> length (sample_quad 0) = 4 \<and> length (sample_quad 2) = 4
   \<and> stability_scores [sample_quad 0, sample_quad 0, sample_quad 0, sample_quad 2]
         (QualityAssessor_reset QualityAssessor_new) ! 1 = 0
   \<and> stability_scores [sample_quad 0, sample_quad 0, sample_quad 0, sample_quad 2]
         (QualityAssessor_reset QualityAssessor_new) ! 2 = 0
   \<and> stability_scores [sample_quad 0, sample_quad 0, sample_quad 0, sample_quad 2]
         (QualityAssessor_reset QualityAssessor_new) ! 3 = 9 / 10"
proof -
  let ?cs = "[sample_quad 0, sample_quad 0, sample_quad 0, sample_quad 2]"
  have len: "\<forall>c\<in>set ?cs. length c = 4"
    by (simp add: sample_quad_def)
  have n: "1 < length ?cs" "2 < length ?cs" "3 < length ?cs"
    by simp_all
  have avg: "avgDisplacement_spec (sample_quad 2) [sample_quad 0, sample_quad 0, sample_quad 0] = 2"
    by (simp add: avgDisplacement_spec_def sample_quad_def corner_distance_def upt_rec)
  have "retained 3 ?cs = [sample_quad 0, sample_quad 0, sample_quad 0]"
    by (simp add: retained_def MAX_HISTORY_def)
  with checkStability_after_reset [OF len n(1), of QualityAssessor_new]
    checkStability_after_reset [OF len n(2), of QualityAssessor_new]
    checkStability_after_reset [OF len n(3), of QualityAssessor_new] avg len n
  show ?thesis by simp
qed

section \<open>Properties of corner ordering\<close>

lemma quadrant_less: "quadrant c p < 4"
  by (simp add: quadrant_def)

lemma assign_corner_assigned:
  "length (snd st) = 4 \<Longrightarrow>
   length (snd (assign_corner c st p)) = 4 \<and>
   (\<forall>i<4. snd (assign_corner c st p) ! i \<longleftrightarrow> snd st ! i \<or> i = quadrant c p)"
  using quadrant_less[of c p]
  by (auto simp: assign_corner_def Let_def nth_list_update)

lemma foldl_assign_corner_assigned:
  "length (snd st) = 4 \<Longrightarrow>
   length (snd (foldl (assign_corner c) st pts)) = 4 \<and>
   (\<forall>i<4. snd (foldl (assign_corner c) st pts) ! i \<longleftrightarrow> snd st ! i \<or> i \<in> quadrant c ` set pts)"
proof (induction pts arbitrary: st)
  case Nil
  then show ?case by simp
next
  case (Cons p pts)
  from assign_corner_assigned[OF Cons.prems, of c p]
  have l: "length (snd (assign_corner c st p)) = 4"
    and a: "\<forall>i<4. snd (assign_corner c st p) ! i \<longleftrightarrow> snd st ! i \<or> i = quadrant c p"
    by simp_all
  from Cons.IH[OF l] a show ?case by auto
qed

lemma allAssigned_fold:
  "foldl (\<lambda>ok a. if \<not> a then False else ok) b assigned \<longleftrightarrow> b \<and> (\<forall>a\<in>set assigned. a)"
  by (induction assigned arbitrary: b) auto

lemma collision_leaves_slot:
  assumes "length corners = 4" "\<not> distinct (map (quadrant c) corners)"
  shows "\<exists>i<4. i \<notin> quadrant c ` set corners"
proof (rule ccontr)
  assume "\<not> (\<exists>i<4. i \<notin> quadrant c ` set corners)"
  then have "{..<4} \<subseteq> quadrant c ` set corners" by auto
  then have "card {..<4::nat} \<le> card (quadrant c ` set corners)"
    by (intro card_mono) simp_all
  then have "4 \<le> card (set (map (quadrant c) corners))" by simp
  moreover have "card (set (map (quadrant c) corners)) \<le> length (map (quadrant c) corners)"
    by (rule card_length)
  ultimately have "card (set (map (quadrant c) corners)) = length (map (quadrant c) corners)"
    using assms(1) by simp
  then have "distinct (map (quadrant c) corners)" by (rule card_distinct)
  with assms(2) show False by simp
qed

lemma PerspectiveCorrector_orderCorners_fallback:
  assumes "length corners = 4"
    and "\<not> distinct (map (quadrant (corners_center corners)) corners)"
  shows "PerspectiveCorrector_orderCorners corners = corners"
proof -
  let ?c = "corners_center corners"
  let ?st = "foldl (assign_corner ?c) (replicate 4 Point2f_zero, replicate 4 False) corners"
  obtain i where i: "i < 4" "i \<notin> quadrant ?c ` set corners"
    using collision_leaves_slot[OF assms] by blast
  have inv: "length (snd ?st) = 4 \<and>
      (\<forall>i<4. snd ?st ! i \<longleftrightarrow> snd (replicate 4 Point2f_zero, replicate 4 False) ! i
                \<or> i \<in> quadrant ?c ` set corners)"
    by (rule foldl_assign_corner_assigned) simp
  with i have "\<not> snd ?st ! i" by simp
  moreover have "snd ?st ! i \<in> set (snd ?st)" using inv i by (intro nth_mem) simp
  ultimately have "\<not> (\<forall>a\<in>set (snd ?st). a)" by metis
  then show ?thesis
    using assms(1)
    by (auto simp: PerspectiveCorrector_orderCorners_def Let_def allAssigned_fold split: prod.splits)
qed

lemma diamond_center: "corners_center diamond = Point2f 5 5"
  by (simp add: corners_center_def diamond_def pt_scale_def pt_add_def)

text \<open>
  Claim C2, at a quadrilateral the detector can produce (a square turned by 45 degrees):
  two corners fall into the bottom-right quadrant and none into the top-left one.
  \<^verbatim>\<open>DocumentDetector::orderCorners\<close> keeps the later of the two colliding corners, leaves the
  default point \<open>(0, 0)\<close> in the empty slot and does not return its input;
  \<^verbatim>\<open>PerspectiveCorrector::orderCorners\<close> returns its input.
\<close>

theorem DocumentDetector_orderCorners_collision:
  "DocumentDetector_orderCorners diamond = [Point2f 0 0, Point2f 5 0, Point2f 5 10, Point2f 0 5]
   \<and> DocumentDetector_orderCorners diamond \<noteq> diamond
   \<and> PerspectiveCorrector_orderCorners diamond = diamond"
proof -
  have d: "DocumentDetector_orderCorners diamond = [Point2f 0 0, Point2f 5 0, Point2f 5 10, Point2f 0 5]"
    unfolding DocumentDetector_orderCorners_def Let_def diamond_center
    by (simp add: diamond_def quadrant_def Point2f_zero_def numeral_eq_Suc)
  have p: "PerspectiveCorrector_orderCorners diamond = diamond"
    unfolding PerspectiveCorrector_orderCorners_def Let_def diamond_center
    by (simp add: diamond_def quadrant_def assign_corner_def Point2f_zero_def numeral_eq_Suc)
  show ?thesis using d p by (simp add: diamond_def)
qed

section \<open>Properties of the detection confidence\<close>

lemma corner_pairs_eq: "corner_pairs = [(0, 1), (0, 2), (0, 3), (1, 2), (1, 3), (2, 3)]"
  by (simp add: corner_pairs_def upt_rec)

lemma pt_norm_sub: "pt_norm (pt_sub p q) = corner_distance p q"
  by (simp add: pt_norm_def pt_sub_def corner_distance_def)

lemma minDist_loop:
  "foldl (\<lambda>m (i, j). min m (pt_norm (pt_sub (corners ! i) (corners ! j)))) FLT_MAX corner_pairs
     = min FLT_MAX (min_corner_distance corners)"
  unfolding corner_pairs_eq min_corner_distance_def pt_norm_sub
  by (simp add: min.assoc)

lemma sqrt_le_self: "1 \<le> x \<Longrightarrow> sqrt x \<le> (x::real)"
proof -
  assume x: "1 \<le> x"
  then have "x * 1 \<le> x * x" by (intro mult_left_mono) simp_all
  then have "x \<le> x\<^sup>2" by (simp add: power2_eq_square)
  then have "sqrt x \<le> sqrt (x\<^sup>2)" by (simp only: real_sqrt_le_iff)
  also have "\<dots> = x" using x by simp
  finally show ?thesis .
qed

lemma FLT_MAX_large: "2 ^ 31 \<le> FLT_MAX"
  by (simp add: FLT_MAX_def)

lemma distScore_cap:
  assumes "0 < e" "e \<le> FLT_MAX"
  shows "min 1 (min FLT_MAX d / e) = min 1 (d / e)"
proof (cases "d \<le> FLT_MAX")
  case True
  then show ?thesis by (simp add: min_def)
next
  case False
  then have "min FLT_MAX d = FLT_MAX" by simp
  moreover have "1 \<le> FLT_MAX / e" using assms by simp
  moreover have "1 \<le> d / e" using assms False by simp
  ultimately show ?thesis by simp
qed

lemma minExpectedDist_range:
  assumes "0 < width" "0 < height" "width * height < 2 ^ 31"
  shows "0 < sqrt (real_of_int (width * height)) * (1 / 10)"
    and "sqrt (real_of_int (width * height)) * (1 / 10) \<le> FLT_MAX"
proof -
  let ?A = "real_of_int (width * height)"
  have pos: "0 < width * height" using assms by simp
  then have one: "1 \<le> ?A" by linarith
  then show "0 < sqrt ?A * (1 / 10)" by simp
  have "sqrt ?A \<le> ?A" using one by (rule sqrt_le_self)
  moreover have "?A \<le> 2 ^ 31"
  proof -
    have "real_of_int (width * height) \<le> real_of_int (2 ^ 31)"
      using assms(3) by (simp only: of_int_le_iff)
    then show ?thesis by simp
  qed
  ultimately have "sqrt ?A * (1 / 10) \<le> 2 ^ 31" using one by simp
  with FLT_MAX_large show "sqrt ?A * (1 / 10) \<le> FLT_MAX" by simp
qed

lemma areaScore_code:
  "(if areaRatio \<ge> 2 / 10 \<and> areaRatio \<le> 8 / 10 then 1 - \<bar>areaRatio - 5 / 10\<bar>
    else if areaRatio > 1 / 10 then 5 / 10 else 0) = area_fit_score_code areaRatio"
  by (auto simp: area_fit_score_code_def)

text \<open>
  Claim C3, as the code has it. For a 4-corner quadrilateral and a frame of positive
  width and height whose area fits an \<^verbatim>\<open>int\<close>, the confidence is
  \<open>0.6 * area-fit + 0.4 * corner-separation\<close>, where the area-fit score is
  \<open>1 - |ratio - 0.5|\<close> for a ratio in \<open>[0.2, 0.8]\<close>, \<open>0.5\<close> for a ratio in \<open>(0.1, 0.2)\<close>
  and also for every ratio above \<open>0.8\<close>, and \<open>0\<close> for a ratio of at most \<open>0.1\<close>; the
  corner-separation score is the minimum pairwise corner distance over
  \<open>0.1 * sqrt (frame area)\<close>, capped at 1.
\<close>

theorem calculateConfidence_formula:
  assumes "length corners = 4" and "0 < width" and "0 < height" and "width * height < 2 ^ 31"
  shows "calculateConfidence corners width height =
           (6 / 10) * area_fit_score_code (contourArea corners / real_of_int (width * height))
             + (4 / 10) * corner_separation_score corners width height"
proof -
  let ?e = "sqrt (real_of_int (width * height)) * (1 / 10)"
  have cap: "min 1 (min FLT_MAX (min_corner_distance corners) / ?e)
               = min 1 (min_corner_distance corners / ?e)"
    using minExpectedDist_range[OF assms(2-4)] by (rule distScore_cap)
  have "calculateConfidence corners width height =
          area_fit_score_code (contourArea corners / real_of_int (width * height)) * (6 / 10)
            + min 1 (min FLT_MAX (min_corner_distance corners) / ?e) * (4 / 10)"
    using assms(1)
    unfolding calculateConfidence_def Let_def minDist_loop areaScore_code by simp
  then show ?thesis
    unfolding cap corner_separation_score_def by (simp add: mult.commute)
qed

lemma sqrt_81: "sqrt 81 = 9"
proof -
  have "sqrt 81 = sqrt (9\<^sup>2)" by simp
  then show ?thesis by (simp only: real_sqrt_abs)
qed

lemma sqrt_100: "sqrt 100 = 10"
proof -
  have "sqrt 100 = sqrt (10\<^sup>2)" by simp
  then show ?thesis by (simp only: real_sqrt_abs)
qed

lemma sqrt_162: "9 \<le> sqrt 162"
  by (rule real_le_rsqrt) simp

lemma large_quad_min_distance: "min_corner_distance large_quad = 9"
  using sqrt_162
  by (simp add: min_corner_distance_def large_quad_def corner_distance_def sqrt_81 min_def)

lemma large_quad_area: "contourArea large_quad = 81"
  by (simp add: contourArea_def large_quad_def)

lemma large_quad_separation: "corner_separation_score large_quad 10 10 = 1"
  by (simp add: corner_separation_score_def large_quad_min_distance sqrt_100)

theorem calculateConfidence_formula_witness:
  "length large_quad = 4 \<and> (0::int) < 10 \<and> (10::int) * 10 < 2 ^ 31
   \<and> calculateConfidence large_quad 10 10 = 7 / 10"
  using calculateConfidence_formula [of large_quad 10 10]
  by (simp add: large_quad_area large_quad_separation area_fit_score_code_def)
     (simp add: large_quad_def)

text \<open>
  Claim C3 as stated fails for a ratio above 0.8: for a square covering 81 percent of a
  10 by 10 frame the code returns \<open>0.5 * 0.6 + 1 * 0.4 = 0.7\<close>, the stated formula \<open>0.4\<close>.
\<close>

theorem confidence_spec_counterexample:
  "calculateConfidence large_quad 10 10 \<noteq> confidence_spec large_quad 10 10"
proof -
  have "calculateConfidence large_quad 10 10 = 7 / 10"
    unfolding calculateConfidence_def Let_def minDist_loop large_quad_min_distance large_quad_area
    by (simp add: large_quad_def sqrt_100 FLT_MAX_def)
  moreover have "confidence_spec large_quad 10 10 = 4 / 10"
    by (simp add: confidence_spec_def large_quad_area large_quad_separation area_fit_score_spec_def)
  ultimately show ?thesis by simp
qed

section \<open>Properties of the trapezoid geometry\<close>

lemma corner_distance_scale:
  "0 < k \<Longrightarrow> corner_distance (pt_scale k p) (pt_scale k q) = k * corner_distance p q"
proof -
  assume k: "0 < k"
  have "(k * px p - k * px q)\<^sup>2 + (k * py p - k * py q)\<^sup>2
          = k\<^sup>2 * ((px p - px q)\<^sup>2 + (py p - py q)\<^sup>2)"
    by (simp add: power2_eq_square algebra_simps)
  then have "corner_distance (pt_scale k p) (pt_scale k q)
          = sqrt (k\<^sup>2 * ((px p - px q)\<^sup>2 + (py p - py q)\<^sup>2))"
    by (simp add: corner_distance_def pt_scale_def)
  also have "\<dots> = k * corner_distance p q"
    using k by (simp add: real_sqrt_mult corner_distance_def)
  finally show ?thesis .
qed

lemma corner_distance_nonneg: "0 \<le> corner_distance p q"
  by (simp add: corner_distance_def)

text \<open>The metrics in terms of the four edge lengths.\<close>

lemma trapezoid_metrics_edges:
  defines "skew a b \<equiv> (if (a + b) / 2 > 0 then \<bar>a - b\<bar> / ((a + b) / 2) else (0::real))"
  shows "top_width (trapezoid_metrics pts r0) = corner_distance (pts ! 1) (pts ! 0)"
    and "bottom_width (trapezoid_metrics pts r0) = corner_distance (pts ! 2) (pts ! 3)"
    and "left_height (trapezoid_metrics pts r0) = corner_distance (pts ! 3) (pts ! 0)"
    and "right_height (trapezoid_metrics pts r0) = corner_distance (pts ! 2) (pts ! 1)"
    and "vertical_skew (trapezoid_metrics pts r0)
           = skew (corner_distance (pts ! 1) (pts ! 0)) (corner_distance (pts ! 2) (pts ! 3))"
    and "horizontal_skew (trapezoid_metrics pts r0)
           = skew (corner_distance (pts ! 3) (pts ! 0)) (corner_distance (pts ! 2) (pts ! 1))"
    and "skew_ratio (trapezoid_metrics pts r0)
           = max (vertical_skew (trapezoid_metrics pts r0)) (horizontal_skew (trapezoid_metrics pts r0))"
    and "is_trapezoid (trapezoid_metrics pts r0) \<longleftrightarrow> skew_ratio (trapezoid_metrics pts r0) > 5 / 100"
  by (simp_all add: trapezoid_metrics_def Let_def corner_distance_def skew_def)

lemma skew_scale:
  assumes "0 < k"
  shows "(if (k * a + k * b) / 2 > 0 then \<bar>k * a - k * b\<bar> / ((k * a + k * b) / 2) else (0::real))
       = (if (a + b) / 2 > 0 then \<bar>a - b\<bar> / ((a + b) / 2) else 0)"
proof -
  have 1: "k * a + k * b = k * (a + b)" by (simp add: algebra_simps)
  have 2: "\<bar>k * a - k * b\<bar> = k * \<bar>a - b\<bar>"
    using assms by (simp add: abs_mult flip: right_diff_distrib)
  have 3: "0 < k * (a + b) \<longleftrightarrow> 0 < a + b"
    using assms by (simp add: zero_less_mult_iff)
  show ?thesis
    unfolding 1 2 using assms 3 by simp
qed

text \<open>
  Claim C7. For corners with nonzero average width and height and every \<open>k > 0\<close>, the
  metrics are \<open>vertical_skew = |top - bottom| / avg (top, bottom)\<close>,
  \<open>horizontal_skew = |left - right| / avg (left, right)\<close>, \<open>skew_ratio\<close> their maximum and
  \<open>is_trapezoid\<close> the test \<open>skew_ratio > 0.05\<close>, and scaling all four corners by \<open>k\<close>
  leaves the four of them unchanged.
\<close>

theorem skew_scale_invariant:
  assumes "0 < k" and "length pts = 4"
    and "corner_distance (pts ! 1) (pts ! 0) + corner_distance (pts ! 2) (pts ! 3) \<noteq> 0"
    and "corner_distance (pts ! 3) (pts ! 0) + corner_distance (pts ! 2) (pts ! 1) \<noteq> 0"
  shows "(let r = trapezoid_metrics pts r0;
              r' = trapezoid_metrics (map (pt_scale k) pts) r0;
              top = corner_distance (pts ! 1) (pts ! 0);
              bottom = corner_distance (pts ! 2) (pts ! 3);
              left = corner_distance (pts ! 3) (pts ! 0);
              right = corner_distance (pts ! 2) (pts ! 1)
          in vertical_skew r = \<bar>top - bottom\<bar> / ((top + bottom) / 2)
           \<and> horizontal_skew r = \<bar>left - right\<bar> / ((left + right) / 2)
           \<and> skew_ratio r = max (vertical_skew r) (horizontal_skew r)
           \<and> (is_trapezoid r \<longleftrightarrow> skew_ratio r > 5 / 100)
           \<and> vertical_skew r' = vertical_skew r
           \<and> horizontal_skew r' = horizontal_skew r
           \<and> skew_ratio r' = skew_ratio r
           \<and> is_trapezoid r' = is_trapezoid r)"
proof -
  let ?top = "corner_distance (pts ! 1) (pts ! 0)"
  let ?bottom = "corner_distance (pts ! 2) (pts ! 3)"
  let ?left = "corner_distance (pts ! 3) (pts ! 0)"
  let ?right = "corner_distance (pts ! 2) (pts ! 1)"
  let ?r = "trapezoid_metrics pts r0"
  let ?r' = "trapezoid_metrics (map (pt_scale k) pts) r0"
  have w: "0 < (?top + ?bottom) / 2"
    using assms(3) corner_distance_nonneg[of "pts ! 1" "pts ! 0"]
      corner_distance_nonneg[of "pts ! 2" "pts ! 3"] by simp
  have h: "0 < (?left + ?right) / 2"
    using assms(4) corner_distance_nonneg[of "pts ! 3" "pts ! 0"]
      corner_distance_nonneg[of "pts ! 2" "pts ! 1"] by simp
  have v: "vertical_skew ?r = \<bar>?top - ?bottom\<bar> / ((?top + ?bottom) / 2)"
    using w by (simp only: trapezoid_metrics_edges(5) if_True)
  have hz: "horizontal_skew ?r = \<bar>?left - ?right\<bar> / ((?left + ?right) / 2)"
    using h by (simp only: trapezoid_metrics_edges(6) if_True)
  have nth: "map (pt_scale k) pts ! i = pt_scale k (pts ! i)" if "i < 4" for i
    using that assms(2) by simp
  have v': "vertical_skew ?r' = vertical_skew ?r"
    unfolding trapezoid_metrics_edges(5)
    by ((simp only: nth corner_distance_scale[OF assms(1)] skew_scale[OF assms(1)])?, simp?)
  have h': "horizontal_skew ?r' = horizontal_skew ?r"
    unfolding trapezoid_metrics_edges(6)
    by ((simp only: nth corner_distance_scale[OF assms(1)] skew_scale[OF assms(1)])?, simp?)
  have s: "skew_ratio ?r = max (vertical_skew ?r) (horizontal_skew ?r)"
    by (rule trapezoid_metrics_edges(7))
  have s': "skew_ratio ?r' = skew_ratio ?r"
    unfolding trapezoid_metrics_edges(7) v' h' ..
  have t: "is_trapezoid ?r \<longleftrightarrow> skew_ratio ?r > 5 / 100"
    by (rule trapezoid_metrics_edges(8))
  have t': "is_trapezoid ?r' = is_trapezoid ?r"
    unfolding trapezoid_metrics_edges(8) s' ..
  show ?thesis
    unfolding Let_def using v hz s t v' h' s' t' by blast
qed

lemma sample_trapezoid_edges:
  "corner_distance (sample_trapezoid ! 1) (sample_trapezoid ! 0) = 6"
  "corner_distance (sample_trapezoid ! 2) (sample_trapezoid ! 3) = 12"
  "corner_distance (sample_trapezoid ! 3) (sample_trapezoid ! 0) = 5"
  "corner_distance (sample_trapezoid ! 2) (sample_trapezoid ! 1) = 5"
  by (simp_all add: sample_trapezoid_def corner_distance_def real_sqrt_unique)

theorem skew_scale_invariant_witness:
  "(0::real) < 2 \<and> length sample_trapezoid = 4
   \<and> vertical_skew (trapezoid_metrics (map (pt_scale 2) sample_trapezoid) FrameAnalysisResult_new) = 2 / 3
   \<and> horizontal_skew (trapezoid_metrics (map (pt_scale 2) sample_trapezoid) FrameAnalysisResult_new) = 0
   \<and> is_trapezoid (trapezoid_metrics (map (pt_scale 2) sample_trapezoid) FrameAnalysisResult_new)"
  using skew_scale_invariant [of 2 sample_trapezoid FrameAnalysisResult_new]
  unfolding sample_trapezoid_edges Let_def
  by (simp add: sample_trapezoid_def)

section \<open>Properties of the capture engine\<close>

text \<open>
  Claim C8. When the last analysis does not have both \<open>table_found\<close> and \<open>is_trapezoid\<close>,
  the virtual trapezoid is the guide rectangle: TL, TR, BR, BL, unmodified.
\<close>

theorem virtual_trapezoid_is_guide:
  "\<not> (table_found (last_analysis eng) \<and> is_trapezoid (last_analysis eng)) \<Longrightarrow>
   calculateVirtualTrapezoid eng guide_left guide_top guide_right guide_bottom
     = [guide_left, guide_top, guide_right, guide_top,
        guide_right, guide_bottom, guide_left, guide_bottom]"
  by (auto simp: calculateVirtualTrapezoid_def Let_def)

theorem virtual_trapezoid_is_guide_witness:
  "\<not> (table_found (last_analysis CaptureEngine_new) \<and> is_trapezoid (last_analysis CaptureEngine_new))
   \<and> calculateVirtualTrapezoid CaptureEngine_new 10 20 110 220
        = [10, 20, 110, 20, 110, 220, 10, 220]"
proof -
  have flags: "\<not> (table_found (last_analysis CaptureEngine_new)
                  \<and> is_trapezoid (last_analysis CaptureEngine_new))"
    by (simp add: CaptureEngine_new_def FrameAnalysisResult_new_def)
  from virtual_trapezoid_is_guide [OF flags, of 10 20 110 220] flags
  show ?thesis by simp
qed

lemma length_DocumentDetector_orderCorners:
  "length quad = 4 \<Longrightarrow> length (DocumentDetector_orderCorners quad) = 4"
proof -
  have "length (foldl (\<lambda>ordered pt. ordered[quadrant c pt := pt]) init pts) = length init"
    for c init pts
    by (induction pts arbitrary: init) simp_all
  then show "length quad = 4 \<Longrightarrow> length (DocumentDetector_orderCorners quad) = 4"
    by (simp add: DocumentDetector_orderCorners_def Let_def)
qed

lemma analysed_frame_nonempty:
  "0 < width \<Longrightarrow> 0 < height \<Longrightarrow>
   \<not> mat_empty (crop_frame crop_x crop_y crop_w crop_h
                   (rotate_frame rotation (bufferToMat width height format)))"
  by (auto simp: mat_empty_def crop_frame_def rotate_frame_def bufferToMat_def Let_def)

lemma detect_found:
  "\<not> mat_empty frame \<Longrightarrow>
   (det_found (DocumentDetector_detect frame quad) \<and>
    length (det_corners (DocumentDetector_detect frame quad)) = 4) \<longleftrightarrow> length quad = 4"
  by (auto simp: DocumentDetector_detect_def DetectionResult_new_def Let_def
      length_DocumentDetector_orderCorners)

lemma analyze_table_ready:
  shows "capture_ready (fst (analyze_table frame ms detection result a))
     \<longleftrightarrow> blur_score (fst (analyze_table frame ms detection result a)) > 6 / 10
       \<and> brightness_score (fst (analyze_table frame ms detection result a)) > 5 / 10
       \<and> stability_score (fst (analyze_table frame ms detection result a)) > 8 / 10"
  and "table_found (fst (analyze_table frame ms detection result a))"
  by (simp_all add: analyze_table_def trapezoid_metrics_def Let_def split: prod.splits)

lemma analyze_fallback_ready:
  shows "capture_ready (fst (analyze_fallback frame ms result a))
     \<longleftrightarrow> blur_score (fst (analyze_fallback frame ms result a)) > 6 / 10
       \<and> brightness_score (fst (analyze_fallback frame ms result a)) > 5 / 10
       \<and> stability_score (fst (analyze_fallback frame ms result a)) > 9 / 10"
  and "table_found (fst (analyze_fallback frame ms result a)) = table_found result"
  by (simp_all add: analyze_fallback_def Let_def split: prod.splits)

lemma analyzeFrame_valid:
  assumes "image_data \<noteq> None" "0 < width" "0 < height"
  shows "fst (analyzeFrame eng image_data width height format rotation crop_x crop_y crop_w crop_h ms)
      = (let frame = crop_frame crop_x crop_y crop_w crop_h
                       (rotate_frame rotation (bufferToMat width height format));
             detection = DocumentDetector_detect frame (m_quad ms);
             result = FrameAnalysisResult_new\<lparr> document_found := det_found detection,
                                                corner_confidence := det_confidence detection \<rparr>
         in if length (m_quad ms) = 4
            then fst (analyze_table frame ms detection result (assessor eng))
            else fst (analyze_fallback frame ms result (assessor eng)))"
proof -
  have ne: "\<not> mat_empty (bufferToMat width height format)"
    using assms by (simp add: mat_empty_def bufferToMat_def)
  obtain buf where buf: "image_data = Some buf"
    using assms(1) by auto
  have valid: "\<not> (image_data = None \<or> width \<le> 0 \<or> height \<le> 0)"
    using assms buf by simp
  note found = detect_found[OF analysed_frame_nonempty[OF assms(2,3)], of crop_x crop_y crop_w crop_h
        rotation format "m_quad ms"]
  show ?thesis
    unfolding analyzeFrame_def Let_def if_not_P[OF valid] if_not_P[OF ne] found
    by (simp split: prod.splits)
qed

text \<open>
  Claim C1. For a frame that \<^verbatim>\<open>analyzeFrame\<close> accepts: when the detector found a 4-corner
  quadrilateral, \<open>capture_ready\<close> holds exactly when \<open>blur_score > 0.6\<close>,
  \<open>brightness_score > 0.5\<close> and \<open>stability_score > 0.8\<close>; otherwise (text-region fallback)
  exactly when \<open>blur_score > 0.6\<close>, \<open>brightness_score > 0.5\<close> and \<open>stability_score > 0.9\<close>.
\<close>

theorem capture_ready_thresholds:
  assumes "image_data \<noteq> None" and "0 < width" and "0 < height"
  shows "(let r = fst (analyzeFrame eng image_data width height format rotation
                         crop_x crop_y crop_w crop_h ms)
          in (length (m_quad ms) = 4 \<longrightarrow>
                table_found r \<and>
                (capture_ready r \<longleftrightarrow>
                   blur_score r > 6 / 10 \<and> brightness_score r > 5 / 10 \<and> stability_score r > 8 / 10))
           \<and> (length (m_quad ms) \<noteq> 4 \<longrightarrow>
                \<not> table_found r \<and>
                (capture_ready r \<longleftrightarrow>
                   blur_score r > 6 / 10 \<and> brightness_score r > 5 / 10 \<and> stability_score r > 9 / 10)))"
proof (cases "length (m_quad ms) = 4")
  case True
  then show ?thesis
    unfolding analyzeFrame_valid[OF assms] Let_def
    by (simp add: analyze_table_ready)
next
  case False
  then show ?thesis
    unfolding analyzeFrame_valid[OF assms] Let_def
    by (simp add: analyze_fallback_ready FrameAnalysisResult_new_def)
qed

lemma sample_trapezoid_ordered: "DocumentDetector_orderCorners sample_trapezoid = sample_trapezoid"
proof -
  have c: "corners_center sample_trapezoid = Point2f 6 2"
    by (simp add: corners_center_def sample_trapezoid_def pt_scale_def pt_add_def)
  show ?thesis
    unfolding DocumentDetector_orderCorners_def Let_def c
    by (simp add: sample_trapezoid_def quadrant_def Point2f_zero_def numeral_eq_Suc)
qed

lemma sample_detection:
  "DocumentDetector_detect \<lparr> mat_rows = 10, mat_cols = 20, mat_channels = 3 \<rparr> sample_trapezoid
     = \<lparr> det_found = True, det_corners = sample_trapezoid,
         det_confidence = calculateConfidence sample_trapezoid 20 10 \<rparr>"
  by (simp add: DocumentDetector_detect_def mat_empty_def sample_trapezoid_ordered Let_def)
     (simp add: sample_trapezoid_def)

lemma sample_metrics:
  "trapezoid_metrics sample_trapezoid r
     = r\<lparr> top_width := 6, bottom_width := 12, left_height := 5, right_height := 5,
          vertical_skew := 2 / 3, horizontal_skew := 0, skew_ratio := 2 / 3,
          is_trapezoid := True \<rparr>"
proof -
  have e: "sqrt 36 = 6" "sqrt 144 = 12" "sqrt 25 = 5"
    by (simp_all add: real_sqrt_unique)
  show ?thesis
    by (simp add: trapezoid_metrics_def sample_trapezoid_def Let_def e)
qed

lemma sample_analysis:
  "fst (analyzeFrame CaptureEngine_new (Some []) 20 10 1 0 0 0 0 0 sample_measurements)
     = FrameAnalysisResult_new
         \<lparr> document_found := True, table_found := True,
           result_corners := [3, 0, 9, 0, 12, 4, 0, 4],
           corner_confidence := calculateConfidence sample_trapezoid 20 10,
           blur_score := 7 / 10, brightness_score := 8 / 10, stability_score := 0,
           overall_score := 7 / 10 * (3 / 10) + 8 / 10 * (2 / 10)
                              + calculateConfidence sample_trapezoid 20 10 * (2 / 10),
           capture_ready := False, is_trapezoid := True, skew_ratio := 2 / 3,
           top_width := 6, bottom_width := 12, left_height := 5, right_height := 5,
           vertical_skew := 2 / 3, horizontal_skew := 0 \<rparr>"
  and sample_engine_eq:
  "sample_engine = \<lparr> assessor = \<lparr> corner_history = [sample_trapezoid] \<rparr>,
       last_analysis = fst (analyzeFrame CaptureEngine_new (Some []) 20 10 1 0 0 0 0 0 sample_measurements) \<rparr>"
  unfolding sample_engine_def analyzeFrame_def
  by (simp_all add: Let_def bufferToMat_def mat_empty_def rotate_frame_def crop_frame_def
        sample_measurements_def sample_detection analyze_table_def sample_metrics assess_def
        checkStability_def CaptureEngine_new_def QualityAssessor_new_def QualityScore_new_def
        overall_def copy_corners_def upt_rec FrameAnalysisResult_new_def)
     (simp_all add: sample_trapezoid_def numeral_eq_Suc)

theorem capture_ready_thresholds_witness:
  "Some [] \<noteq> (None :: nat list option) \<and> (0::int) < 20 \<and> (0::int) < 10
   \<and> length (m_quad sample_measurements) = 4
   \<and> table_found (fst (analyzeFrame CaptureEngine_new (Some []) 20 10 1 0 0 0 0 0 sample_measurements))
   \<and> stability_score (fst (analyzeFrame CaptureEngine_new (Some []) 20 10 1 0 0 0 0 0 sample_measurements)) = 0
   \<and> \<not> capture_ready (fst (analyzeFrame CaptureEngine_new (Some []) 20 10 1 0 0 0 0 0 sample_measurements))
   \<and> length (m_quad (sample_measurements\<lparr> m_quad := [] \<rparr>)) \<noteq> 4
   \<and> \<not> table_found (fst (analyzeFrame CaptureEngine_new (Some []) 20 10 1 0 0 0 0 0
                           (sample_measurements\<lparr> m_quad := [] \<rparr>)))"
proof -
  have q: "length (m_quad sample_measurements) = 4"
    by (simp add: sample_measurements_def sample_trapezoid_def)
  have s: "stability_score (fst (analyzeFrame CaptureEngine_new (Some []) 20 10 1 0 0 0 0 0
                                   sample_measurements)) = 0"
    unfolding sample_analysis by simp
  from capture_ready_thresholds [of "Some []" 20 10 CaptureEngine_new 1 0 0 0 0 0 sample_measurements]
       capture_ready_thresholds [of "Some []" 20 10 CaptureEngine_new 1 0 0 0 0 0
                                   "sample_measurements\<lparr> m_quad := [] \<rparr>"]
       q s
  show ?thesis by (simp add: Let_def)
qed

text \<open>
  Claim C10. \<^verbatim>\<open>CaptureEngine::reset\<close> clears the stability history and leaves
  \<open>last_analysis\<close> as it was, so \<^verbatim>\<open>getLastAnalysis\<close>, the virtual trapezoid and a
  guide-frame enhance call give after the reset what they gave before it; and
  \<^verbatim>\<open>analyzeFrame\<close> leaves the engine unchanged when it rejects a null buffer or a
  non-positive dimension.
\<close>

theorem reset_keeps_last_analysis:
  "last_analysis (CaptureEngine_reset eng) = last_analysis eng
   \<and> corner_history (assessor (CaptureEngine_reset eng)) = []
   \<and> getLastAnalysis (CaptureEngine_reset eng) = getLastAnalysis eng
   \<and> calculateVirtualTrapezoid (CaptureEngine_reset eng) guide_left guide_top guide_right guide_bottom
       = calculateVirtualTrapezoid eng guide_left guide_top guide_right guide_bottom
   \<and> enhanceImageWithGuideFrame (CaptureEngine_reset eng) image_data width height format
         guide_left guide_top guide_right guide_bottom options rotation
       = enhanceImageWithGuideFrame eng image_data width height format
           guide_left guide_top guide_right guide_bottom options rotation
   \<and> (image_data' = None \<or> width' \<le> 0 \<or> height' \<le> 0 \<longrightarrow>
        analyzeFrame eng image_data' width' height' format' rotation' crop_x crop_y crop_w crop_h ms
          = (FrameAnalysisResult_new, eng))"
proof -
  have la: "last_analysis (CaptureEngine_reset eng) = last_analysis eng"
    by (simp add: CaptureEngine_reset_def)
  have vt: "calculateVirtualTrapezoid (CaptureEngine_reset eng) a b c d
              = calculateVirtualTrapezoid eng a b c d" for a b c d
    unfolding calculateVirtualTrapezoid_def la ..
  have en: "enhanceImageWithGuideFrame (CaptureEngine_reset eng) image_data width height format
         guide_left guide_top guide_right guide_bottom options rotation
       = enhanceImageWithGuideFrame eng image_data width height format
           guide_left guide_top guide_right guide_bottom options rotation"
    unfolding enhanceImageWithGuideFrame_def la vt ..
  have rej: "image_data' = None \<or> width' \<le> 0 \<or> height' \<le> 0 \<longrightarrow>
        analyzeFrame eng image_data' width' height' format' rotation' crop_x crop_y crop_w crop_h ms
          = (FrameAnalysisResult_new, eng)"
    by (auto simp: analyzeFrame_def)
  show ?thesis
    using la vt en rej
    by (simp add: getLastAnalysis_def) (simp add: CaptureEngine_reset_def QualityAssessor_reset_def)
qed

lemma sample_engine_flags:
  "table_found (last_analysis sample_engine)" "is_trapezoid (last_analysis sample_engine)"
  "vertical_skew (last_analysis sample_engine) = 2 / 3"
  "horizontal_skew (last_analysis sample_engine) = 0"
  "top_width (last_analysis sample_engine) = 6" "bottom_width (last_analysis sample_engine) = 12"
  unfolding sample_engine_eq sample_analysis by simp_all

lemma sample_engine_trapezoid:
  "calculateVirtualTrapezoid sample_engine 0 0 90 50 = [30, 0, 60, 0, 90, 50, 0, 50]"
  by (simp add: calculateVirtualTrapezoid_def sample_engine_flags apply_vertical_skew_def
        apply_horizontal_skew_def Let_def)

theorem reset_keeps_last_analysis_witness:
  "corner_history (assessor sample_engine) = [sample_trapezoid]
   \<and> corner_history (assessor (CaptureEngine_reset sample_engine)) = []
   \<and> is_trapezoid (getLastAnalysis (CaptureEngine_reset sample_engine))
   \<and> calculateVirtualTrapezoid (CaptureEngine_reset sample_engine) 0 0 90 50
        = [30, 0, 60, 0, 90, 50, 0, 50]
   \<and> analyzeFrame (CaptureEngine_reset sample_engine) None 20 10 1 0 0 0 0 0 sample_measurements
        = (FrameAnalysisResult_new, CaptureEngine_reset sample_engine)"
proof -
  have h: "corner_history (assessor sample_engine) = [sample_trapezoid]"
    unfolding sample_engine_eq by simp
  from reset_keeps_last_analysis [of sample_engine 0 0 90 50 None 20 10 1 EnhancementOptions_new 0
         None 20 10 1 0 0 0 0 0 sample_measurements]
       reset_keeps_last_analysis [of "CaptureEngine_reset sample_engine" 0 0 90 50 None 20 10 1
         EnhancementOptions_new 0 None 20 10 1 0 0 0 0 0 sample_measurements]
       h sample_engine_trapezoid sample_engine_flags(2)
  show ?thesis by (simp add: getLastAnalysis_def)
qed

section \<open>Properties of the enhance calls\<close>

lemma fail_with_fields:
  "success (fail_with msg) = False" "res_image_data (fail_with msg) = None"
  "error_message (fail_with msg) = msg"
  by (simp_all add: fail_with_def EnhancementResult_new_def)

lemma output_result_fields:
  "success (output_result m) = True"
  "res_image_data (output_result m) = Some (mat_rows m * mat_cols m * mat_channels m)"
  "error_message (output_result m) = []"
  by (simp_all add: output_result_def EnhancementResult_new_def)

lemma correct_success:
  "corr_success (correct img pts sz) \<longleftrightarrow> \<not> mat_empty img \<and> length pts = 4"
  by (auto simp: correct_def CorrectionResult_new_def Let_def)

lemma perspective_step_cases:
  "perspective_step options c processed =
     (if apply_perspective_correction options \<and> mat_empty processed
      then Inl ''Perspective correction failed''
      else Inr (if apply_perspective_correction options
                then corr_image (correct processed
                       [Point2f (c ! 0) (c ! 1), Point2f (c ! 2) (c ! 3),
                        Point2f (c ! 4) (c ! 5), Point2f (c ! 6) (c ! 7)]
                       (output_width options, output_height options))
                else processed))"
  by (simp add: perspective_step_def Let_def correct_success)

lemma perspective_step_message:
  "perspective_step options c processed = Inl msg \<Longrightarrow> msg = ''Perspective correction failed''"
  by (simp add: perspective_step_cases split: if_splits)

lemma enhanceImage_result:
  "(success (enhanceImage image_data width height format corners8 options)
      \<longleftrightarrow> res_image_data (enhanceImage image_data width height format corners8 options) \<noteq> None)
   \<and> (\<not> success (enhanceImage image_data width height format corners8 options) \<longrightarrow>
        error_message (enhanceImage image_data width height format corners8 options) \<noteq> [])"
  unfolding enhanceImage_def Let_def
  by (auto simp: fail_with_fields output_result_fields
      split: option.splits sum.splits dest!: perspective_step_message)

lemma enhanceImageWithGuideFrame_result:
  "(success (enhanceImageWithGuideFrame eng image_data width height format gl gt gr gb options rotation)
      \<longleftrightarrow> res_image_data (enhanceImageWithGuideFrame eng image_data width height format
                              gl gt gr gb options rotation) \<noteq> None)
   \<and> (\<not> success (enhanceImageWithGuideFrame eng image_data width height format
                     gl gt gr gb options rotation) \<longrightarrow>
        error_message (enhanceImageWithGuideFrame eng image_data width height format
                         gl gt gr gb options rotation) \<noteq> [])"
  unfolding enhanceImageWithGuideFrame_def Let_def
  by (auto simp: fail_with_fields output_result_fields
      split: option.splits sum.splits dest!: perspective_step_message)

lemma enhanceImage_perspective_succeeds:
  assumes "image_data \<noteq> None" "0 < width" "0 < height" "apply_perspective_correction options"
  shows "success (enhanceImage image_data width height format (Some c) options)"
proof -
  have ne: "\<not> mat_empty (bufferToMat width height format)"
    using assms by (simp add: mat_empty_def bufferToMat_def)
  show ?thesis
    using assms ne
    by (auto simp: enhanceImage_def Let_def perspective_step_cases output_result_fields)
qed

text \<open>
  Claim C9, as the code has it. A failed enhance call returns \<open>success = false\<close> with a
  non-empty message and no output buffer, and \<open>success = true\<close> always comes with a buffer
  (both routines). The corrector reports failure exactly when it is handed an empty image
  or a corner list that does not have four points, and the perspective step of an enhance
  call then ends the call with the message \<open>Perspective correction failed\<close>. Nothing
  examines the transform: with a valid image, a corner array and an output size that is
  not negative, a call that asks for perspective correction succeeds whatever the corners
  are.
\<close>

theorem enhance_failure_result:
  "(success (enhanceImage image_data width height format corners8 options)
      \<longleftrightarrow> res_image_data (enhanceImage image_data width height format corners8 options) \<noteq> None)
   \<and> (\<not> success (enhanceImage image_data width height format corners8 options) \<longrightarrow>
        error_message (enhanceImage image_data width height format corners8 options) \<noteq> [])
   \<and> (success (enhanceImageWithGuideFrame eng image_data width height format gl gt gr gb options rotation)
      \<longleftrightarrow> res_image_data (enhanceImageWithGuideFrame eng image_data width height format
                              gl gt gr gb options rotation) \<noteq> None)
   \<and> (\<not> success (enhanceImageWithGuideFrame eng image_data width height format
                     gl gt gr gb options rotation) \<longrightarrow>
        error_message (enhanceImageWithGuideFrame eng image_data width height format
                         gl gt gr gb options rotation) \<noteq> [])
   \<and> (corr_success (correct img pts sz) \<longleftrightarrow> \<not> mat_empty img \<and> length pts = 4)
   \<and> (apply_perspective_correction options' \<and> mat_empty processed \<longrightarrow>
        perspective_step options' c processed = Inl ''Perspective correction failed'')
   \<and> (apply_perspective_correction options' \<and> \<not> mat_empty processed \<longrightarrow>
        (\<exists>m. perspective_step options' c processed = Inr m))
   \<and> (image_data' \<noteq> None \<and> 0 < width' \<and> 0 < height' \<and> apply_perspective_correction options'
        \<and> 0 \<le> output_width options' \<and> 0 \<le> output_height options' \<longrightarrow>
        success (enhanceImage image_data' width' height' format' (Some c) options'))"
  using enhanceImage_result [of image_data width height format corners8 options]
    enhanceImageWithGuideFrame_result [of eng image_data width height format gl gt gr gb options rotation]
    correct_success [of img pts sz]
    enhanceImage_perspective_succeeds [of image_data' width' height' options' format' c]
  by (simp add: perspective_step_cases)

theorem enhance_failure_result_witness:
  "\<not> success (enhanceImage None 100 100 1 (Some (replicate 8 0)) EnhancementOptions_new)
   \<and> error_message (enhanceImage None 100 100 1 (Some (replicate 8 0)) EnhancementOptions_new) \<noteq> []
   \<and> res_image_data (enhanceImage None 100 100 1 (Some (replicate 8 0)) EnhancementOptions_new) = None
   \<and> \<not> success (enhanceImageWithGuideFrame CaptureEngine_new None 100 100 1 0 0 90 50
                   EnhancementOptions_new 0)
   \<and> apply_perspective_correction EnhancementOptions_new \<and> mat_empty Mat_new
   \<and> perspective_step EnhancementOptions_new (replicate 8 0) Mat_new
        = Inl ''Perspective correction failed''
   \<and> \<not> mat_empty \<lparr> mat_rows = 100, mat_cols = 100, mat_channels = 3 \<rparr>
   \<and> (\<exists>m. perspective_step EnhancementOptions_new (replicate 8 0)
              \<lparr> mat_rows = 100, mat_cols = 100, mat_channels = 3 \<rparr> = Inr m)
   \<and> success (enhanceImage (Some []) 100 100 1 (Some (replicate 8 0)) EnhancementOptions_new)"
proof -
  have f1: "\<not> success (enhanceImage None 100 100 1 (Some (replicate 8 0)) EnhancementOptions_new)"
    by (simp add: enhanceImage_def fail_with_fields)
  have f2: "\<not> success (enhanceImageWithGuideFrame CaptureEngine_new None 100 100 1 0 0 90 50
                   EnhancementOptions_new 0)"
    by (simp add: enhanceImageWithGuideFrame_def fail_with_fields)
  have o: "apply_perspective_correction EnhancementOptions_new"
    "0 \<le> output_width EnhancementOptions_new" "0 \<le> output_height EnhancementOptions_new"
    by (simp_all add: EnhancementOptions_new_def)
  have e: "mat_empty Mat_new" "\<not> mat_empty \<lparr> mat_rows = 100, mat_cols = 100, mat_channels = 3 \<rparr>"
    by (simp_all add: mat_empty_def Mat_new_def)
  from enhance_failure_result [of None 100 100 1 "Some (replicate 8 0)" EnhancementOptions_new
         CaptureEngine_new 0 0 90 50 0 Mat_new "[]" "(0, 0)" EnhancementOptions_new Mat_new
         "replicate 8 0" "Some []" 100 100 1]
       enhance_failure_result [of None 100 100 1 "Some (replicate 8 0)" EnhancementOptions_new
         CaptureEngine_new 0 0 90 50 0 Mat_new "[]" "(0, 0)" EnhancementOptions_new
         "\<lparr> mat_rows = 100, mat_cols = 100, mat_channels = 3 \<rparr>"
         "replicate 8 0" "Some []" 100 100 1]
       f1 f2 o e
  show ?thesis by simp
qed

text \<open>
  Claim C9 as stated fails for a degenerate transform: with all four corners at \<open>(0, 0)\<close>
  and perspective correction requested, the call returns \<open>success = true\<close> and a buffer for
  a 100 by 100 image.
\<close>

theorem degenerate_transform_counterexample:
  "apply_perspective_correction EnhancementOptions_new
   \<and> degenerate_quad [Point2f 0 0, Point2f 0 0, Point2f 0 0, Point2f 0 0]
   \<and> success (enhanceImage (Some []) 100 100 1 (Some (replicate 8 0)) EnhancementOptions_new)
   \<and> res_image_data (enhanceImage (Some []) 100 100 1 (Some (replicate 8 0)) EnhancementOptions_new)
        = Some 30000
   \<and> error_message (enhanceImage (Some []) 100 100 1 (Some (replicate 8 0)) EnhancementOptions_new)
        = []"
proof -
  have z: "replicate 8 (0::real) = [0, 0, 0, 0, 0, 0, 0, 0]"
    by (simp add: numeral_eq_Suc)
  have oc: "PerspectiveCorrector_orderCorners [Point2f 0 0, Point2f 0 0, Point2f 0 0, Point2f 0 0]
              = [Point2f 0 0, Point2f 0 0, Point2f 0 0, Point2f 0 0]"
    by (rule PerspectiveCorrector_orderCorners_fallback) simp_all
  have c: "corr_image (correct \<lparr> mat_rows = 100, mat_cols = 100, mat_channels = 3 \<rparr>
             [Point2f 0 0, Point2f 0 0, Point2f 0 0, Point2f 0 0] (0, 0))
           = \<lparr> mat_rows = 100, mat_cols = 100, mat_channels = 3 \<rparr>"
    by (simp add: correct_def mat_empty_def Let_def oc calculateOutputSize_def pt_norm_def
          pt_sub_def trunc_int_def)
  have r: "enhanceImage (Some []) 100 100 1 (Some (replicate 8 0)) EnhancementOptions_new
             = output_result \<lparr> mat_rows = 100, mat_cols = 100, mat_channels = 3 \<rparr>"
    unfolding z
    by (simp add: enhanceImage_def Let_def bufferToMat_def mat_empty_def perspective_step_cases
          EnhancementOptions_new_def c to_BGR_def apply_enhance_mode_def)
  show ?thesis
    unfolding r
    by (simp add: output_result_fields EnhancementOptions_new_def degenerate_quad_def collinear3_def)
qed

section \<open>Properties of the Sauvola binarizer\<close>

lemma prefix_difference:
  fixes g :: "int \<Rightarrow> real"
  assumes "0 \<le> a" "a \<le> b + 1"
  shows "(\<Sum>i = 0..<b + 1. g i) - (\<Sum>i = 0..<a. g i) = (\<Sum>i = a..b. g i)"
proof -
  have u: "{0..<b + 1} = {0..<a} \<union> {a..<b + 1}" and d: "{0..<a} \<inter> {a..<b + 1} = {}"
    using assms by auto
  have "(\<Sum>i = 0..<b + 1. g i) = (\<Sum>i = 0..<a. g i) + (\<Sum>i = a..<b + 1. g i)"
    unfolding u using d by (intro sum.union_disjoint) simp_all
  moreover have "{a..<b + 1} = {a..b}" by auto
  ultimately show ?thesis by simp
qed

lemma integral_window:
  assumes "0 \<le> y1" "y1 \<le> y2 + 1" "0 \<le> x1" "x1 \<le> x2 + 1"
  shows "integral f (y2 + 1) (x2 + 1) - integral f y1 (x2 + 1)
           - integral f (y2 + 1) x1 + integral f y1 x1
         = (\<Sum>y = y1..y2. \<Sum>x = x1..x2. f y x)"
proof -
  have cols: "(\<Sum>x = 0..<x2 + 1. f y x) - (\<Sum>x = 0..<x1. f y x) = (\<Sum>x = x1..x2. f y x)" for y
    using assms(3,4) by (rule prefix_difference)
  have strip: "integral f Y (x2 + 1) - integral f Y x1 = (\<Sum>y = 0..<Y. \<Sum>x = x1..x2. f y x)" for Y
    unfolding integral_def by (simp add: cols flip: sum_subtractf)
  have "integral f (y2 + 1) (x2 + 1) - integral f y1 (x2 + 1)
           - integral f (y2 + 1) x1 + integral f y1 x1
      = (integral f (y2 + 1) (x2 + 1) - integral f (y2 + 1) x1)
          - (integral f y1 (x2 + 1) - integral f y1 x1)"
    by simp
  also have "\<dots> = (\<Sum>y = 0..<y2 + 1. \<Sum>x = x1..x2. f y x) - (\<Sum>y = 0..<y1. \<Sum>x = x1..x2. f y x)"
    by (simp only: strip)
  also have "\<dots> = (\<Sum>y = y1..y2. \<Sum>x = x1..x2. f y x)"
    using assms(1,2) by (rule prefix_difference)
  finally show ?thesis .
qed

lemma variance_identity:
  fixes f :: "'a \<Rightarrow> real"
  assumes "finite S" "S \<noteq> {}"
  defines "n \<equiv> real (card S)"
  defines "m \<equiv> (\<Sum>i\<in>S. f i) / n"
  shows "(\<Sum>i\<in>S. f i * f i) / n - m * m = (\<Sum>i\<in>S. (f i - m)\<^sup>2) / n"
proof -
  have n: "0 < n" using assms(1,2) by (simp add: n_def card_gt_0_iff)
  have s: "(\<Sum>i\<in>S. f i) = n * m" using n by (simp add: m_def)
  have "(\<Sum>i\<in>S. (f i - m)\<^sup>2) = (\<Sum>i\<in>S. f i * f i - 2 * m * f i + m * m)"
    by (intro sum.cong refl) (simp add: power2_eq_square algebra_simps)
  also have "\<dots> = (\<Sum>i\<in>S. f i * f i) - 2 * m * (\<Sum>i\<in>S. f i) + n * (m * m)"
    by (simp add: sum.distrib sum_subtractf sum_distrib_left n_def)
  also have "\<dots> = (\<Sum>i\<in>S. f i * f i) - n * (m * m)"
    unfolding s by (simp add: algebra_simps)
  finally have "(\<Sum>i\<in>S. (f i - m)\<^sup>2) / n = ((\<Sum>i\<in>S. f i * f i) - n * (m * m)) / n"
    by simp
  also have "\<dots> = (\<Sum>i\<in>S. f i * f i) / n - m * m"
    using n by (simp add: diff_divide_distrib)
  finally show ?thesis by simp
qed

lemma variance_nonneg:
  fixes f :: "'a \<Rightarrow> real"
  assumes "finite S" "S \<noteq> {}"
  shows "0 \<le> (\<Sum>i\<in>S. f i * f i) / real (card S)
              - ((\<Sum>i\<in>S. f i) / real (card S)) * ((\<Sum>i\<in>S. f i) / real (card S))"
  unfolding variance_identity[OF assms]
  by (intro divide_nonneg_nonneg sum_nonneg) simp_all

lemma window_interval:
  fixes h n y :: int
  assumes "0 \<le> h"
  shows "{r. 0 \<le> r \<and> r < n \<and> 2 * \<bar>r - y\<bar> < 2 * h + 1} = {max 0 (y - h)..min (n - 1) (y + h)}"
  using assms by auto

lemma clipped_window_box:
  assumes "0 \<le> h"
  shows "clipped_window gray (2 * h + 1) y x
           = {max 0 (y - h)..min (pm_rows gray - 1) (y + h)}
               \<times> {max 0 (x - h)..min (pm_cols gray - 1) (x + h)}"
  unfolding clipped_window_def window_interval[OF assms] ..

lemma forced_odd_half:
  assumes "0 \<le> windowSize"
  defines "w \<equiv> (if windowSize mod 2 = 0 then windowSize + 1 else windowSize)"
  shows "0 \<le> c_div2 w" and "2 * c_div2 w + 1 = odd_size windowSize"
proof -
  have w: "0 \<le> w" "w mod 2 = 1" "w = odd_size windowSize"
    using assms(1) unfolding w_def odd_size_def by (auto simp: even_iff_mod_2_eq_zero)
  then show "0 \<le> c_div2 w" by (simp add: c_div2_def)
  show "2 * c_div2 w + 1 = odd_size windowSize"
    using w by (simp add: c_div2_def) presburger
qed

lemma sauvola_threshold_at_spec:
  assumes "0 \<le> y" "y < pm_rows gray" "0 \<le> x" "x < pm_cols gray" "0 \<le> h"
  defines "W \<equiv> clipped_window gray (2 * h + 1) y x"
  shows "sauvola_threshold_at gray h k R y x
           = window_mean gray W * (1 + k * (window_stddev gray W / R - 1))"
proof -
  let ?x1 = "max 0 (x - h)" and ?y1 = "max 0 (y - h)"
  let ?x2 = "min (pm_cols gray - 1) (x + h)" and ?y2 = "min (pm_rows gray - 1) (y + h)"
  let ?f = "\<lambda>r c. intensity gray r c"
  have W: "W = {?y1..?y2} \<times> {?x1..?x2}"
    unfolding W_def by (rule clipped_window_box[OF assms(5)])
  have ord: "0 \<le> ?y1" "?y1 \<le> ?y2" "0 \<le> ?x1" "?x1 \<le> ?x2"
    using assms(1-5) by auto
  have fin: "finite W" and ne: "W \<noteq> {}"
    unfolding W using ord by auto
  have card: "real (card W) = real_of_int ((?x2 - ?x1 + 1) * (?y2 - ?y1 + 1))"
    unfolding W using ord by (simp add: card_cartesian_product mult.commute)
  have win: "integral g (?y2 + 1) (?x2 + 1) - integral g ?y1 (?x2 + 1)
               - integral g (?y2 + 1) ?x1 + integral g ?y1 ?x1
             = (\<Sum>(r, c)\<in>W. g r c)" for g
  proof -
    have "integral g (?y2 + 1) (?x2 + 1) - integral g ?y1 (?x2 + 1)
               - integral g (?y2 + 1) ?x1 + integral g ?y1 ?x1
          = (\<Sum>r = ?y1..?y2. \<Sum>c = ?x1..?x2. g r c)"
      using ord by (intro integral_window) linarith+
    then show ?thesis
      unfolding W by (simp add: sum.cartesian_product)
  qed
  have mean: "(\<Sum>(r, c)\<in>W. ?f r c) / real (card W) = window_mean gray W"
    by (simp add: window_mean_def)
  have var: "(\<Sum>(r, c)\<in>W. ?f r c * ?f r c) / real (card W)
               - window_mean gray W * window_mean gray W
             = (\<Sum>(r, c)\<in>W. (?f r c - window_mean gray W)\<^sup>2) / real (card W)"
    using variance_identity[OF fin ne, of "\<lambda>(r, c). ?f r c"]
    by (simp add: window_mean_def case_prod_unfold)
  have nonneg: "0 \<le> (\<Sum>(r, c)\<in>W. (?f r c - window_mean gray W)\<^sup>2) / real (card W)"
    by (intro divide_nonneg_nonneg sum_nonneg) auto
  have "sauvola_threshold_at gray h k R y x
      = (let mean = (\<Sum>(r, c)\<in>W. ?f r c) / real (card W);
             variance = (\<Sum>(r, c)\<in>W. ?f r c * ?f r c) / real (card W) - mean * mean
         in mean * (1 + k * (sqrt (max 0 variance) / R - 1)))"
    unfolding sauvola_threshold_at_def Let_def intensity_def[symmetric] win card[symmetric] ..
  also have "\<dots> = window_mean gray W * (1 + k * (window_stddev gray W / R - 1))"
    unfolding Let_def mean var using nonneg by (simp add: window_stddev_def max_def)
  finally show ?thesis .
qed

lemma pixel_loop:
  "pm_at (foldl (\<lambda>b x. if P x then set_pixel b y x v else b) b0 xs) y' x' c =
     (if y' = y \<and> x' \<in> set xs \<and> P x' \<and> c = 0 then v else pm_at b0 y' x' c)"
  by (induction xs arbitrary: b0) (auto simp: set_pixel_def)

lemma sauvola_row_at:
  "pm_at (sauvola_row gray h k R y b0) y' x' c =
     (if y' = y \<and> 0 \<le> x' \<and> x' < pm_cols gray
          \<and> intensity gray y x' > sauvola_threshold_at gray h k R y x' \<and> c = 0
      then 255 else pm_at b0 y' x' c)"
  unfolding sauvola_row_def pixel_loop intensity_def by auto

lemma sauvola_rows_fold_at:
  "pm_at (foldl (\<lambda>b y. sauvola_row gray h k R y b) b0 ys) y' x' c =
     (if y' \<in> set ys \<and> 0 \<le> x' \<and> x' < pm_cols gray
          \<and> intensity gray y' x' > sauvola_threshold_at gray h k R y' x' \<and> c = 0
      then 255 else pm_at b0 y' x' c)"
  by (induction ys arbitrary: b0) (auto simp: sauvola_row_at)

lemma sauvola_rows_at:
  "pm_at (sauvola_rows gray h k R b0) y' x' c =
     (if 0 \<le> y' \<and> y' < pm_rows gray \<and> 0 \<le> x' \<and> x' < pm_cols gray
          \<and> intensity gray y' x' > sauvola_threshold_at gray h k R y' x' \<and> c = 0
      then 255 else pm_at b0 y' x' c)"
  unfolding sauvola_rows_def sauvola_rows_fold_at by auto

text \<open>
  Claim C4. For a single-channel image, a window size that is not negative and a range
  \<open>R\<close> other than 0, every pixel of the result (in each of its three equal channels) is
  the foreground value 255 exactly when the pixel's intensity exceeds
  \<open>mean * (1 + k * (stddev / R - 1))\<close>, and the background value 0 otherwise, where the mean
  and the standard deviation are those of the window of the (odd) size centred at the
  pixel and cut to the image.
\<close>

theorem sauvolaBinarize_threshold:
  assumes "pm_channels input = 1"
    and "0 \<le> y" and "y < pm_rows input" and "0 \<le> x" and "x < pm_cols input"
    and "0 \<le> windowSize" and "R \<noteq> 0" and "c \<in> {0, 1, 2}"
  shows "pm_at (sauvolaBinarize bgr2gray input windowSize k R) y x c =
           (let W = clipped_window input (odd_size windowSize) y x
            in if intensity input y x
                    > window_mean input W * (1 + k * (window_stddev input W / R - 1))
               then 255 else 0)"
proof -
  let ?w = "if windowSize mod 2 = 0 then windowSize + 1 else windowSize"
  let ?h = "c_div2 ?w"
  have h: "0 \<le> ?h" and size: "2 * ?h + 1 = odd_size windowSize"
    using forced_odd_half[OF assms(6)] by simp_all
  have ne: "\<not> pm_empty input"
    using assms(2-5) by (auto simp: pm_empty_def)
  have thr: "sauvola_threshold_at input ?h k R y x
               = window_mean input (clipped_window input (odd_size windowSize) y x)
                   * (1 + k * (window_stddev input (clipped_window input (odd_size windowSize) y x) / R - 1))"
    using sauvola_threshold_at_spec[OF assms(2-5) h, of k R] unfolding size .
  have "pm_at (sauvolaBinarize bgr2gray input windowSize k R) y x c
          = pm_at (sauvola_rows input ?h k R (zeros (pm_rows input) (pm_cols input))) y x 0"
    using ne assms(1) by (simp add: sauvolaBinarize_def Let_def GRAY2BGR_def)
  also have "\<dots> = (if intensity input y x > sauvola_threshold_at input ?h k R y x then 255 else 0)"
    using assms(2-5) by (simp add: sauvola_rows_at zeros_def)
  finally show ?thesis
    unfolding thr Let_def .
qed

lemma one_pixel_window: "clipped_window (one_pixel v) (odd_size 15) 0 0 = {(0, 0)}"
proof -
  have "odd_size 15 = 2 * 7 + 1" by (simp add: odd_size_def)
  then show ?thesis
    using clipped_window_box[of 7 "one_pixel v" 0 0] by (simp add: one_pixel_def)
qed

lemma one_pixel_statistics:
  "window_mean (one_pixel v) {(0, 0)} = real (unat v)"
  "window_stddev (one_pixel v) {(0, 0)} = 0"
  by (simp_all add: window_stddev_def window_mean_def intensity_def one_pixel_def)

theorem sauvolaBinarize_threshold_witness:
  "pm_channels (one_pixel 7) = 1 \<and> (0::int) < pm_rows (one_pixel 7) \<and> (128::real) \<noteq> 0
   \<and> pm_at (sauvolaBinarize (\<lambda>m. m) (one_pixel 7) 15 (2 / 10) 128) 0 0 0 = 255
   \<and> pm_at (sauvolaBinarize (\<lambda>m. m) (one_pixel 0) 15 (2 / 10) 128) 0 0 0 = 0"
  using sauvolaBinarize_threshold [of "one_pixel 7" 0 0 15 128 0 "\<lambda>m. m" "2 / 10"]
    sauvolaBinarize_threshold [of "one_pixel 0" 0 0 15 128 0 "\<lambda>m. m" "2 / 10"]
  unfolding one_pixel_window one_pixel_statistics Let_def
  by (simp add: one_pixel_def intensity_def)

end
